theory Spec2Isabelle
  imports Complex_Main
begin

section \<open>The exploratory data analysis script \<^verbatim>\<open>src/eda_script.py\<close>\<close>

text \<open>
  The script is one function, \<^verbatim>\<open>main(input, out_dir)\<close> (the specification calls it
  \<^verbatim>\<open>run\<close>), and a one-line helper \<^verbatim>\<open>test_figs\<close>. It is a sequence of calls into
  pandas, altair, seaborn, matplotlib and dataframe_image. The embedding keeps the
  sequence as it is written. The data-frame operations whose result the script depends
  on (\<^verbatim>\<open>replace\<close>, \<^verbatim>\<open>rename\<close>, \<^verbatim>\<open>select_dtypes\<close>, \<^verbatim>\<open>unique\<close>, \<^verbatim>\<open>nunique\<close>,
  \<^verbatim>\<open>isnull().sum()\<close>, \<^verbatim>\<open>append\<close>) are written out as functions on lists, following
  the behaviour pandas 1.x documents for them. Everything that touches the outside
  (the file system, CSV parsing, chart construction and rendering) is a field of the
  record \<open>libs\<close>: a call either raises or returns, and what it does is given from outside.
\<close>

subsection \<open>Exceptions\<close>

datatype py_error =
    KeyError string
  | AssertionError string
  | AttributeError string
  | Raised string  \<comment> \<open>any exception raised inside a library or by the operating system\<close>

subsection \<open>Data frames\<close>

text \<open>
  A column read by \<^verbatim>\<open>read_csv\<close> has one of four dtypes: \<^verbatim>\<open>int64\<close>, \<^verbatim>\<open>float64\<close>
  (the only numeric dtype with a missing value, NaN), \<^verbatim>\<open>bool\<close>, or \<^verbatim>\<open>object\<close>. An
  \<^verbatim>\<open>object\<close> column holds Python objects: strings and NaN, and also booleans, integers
  and floats, since a large file is parsed in chunks and a column whose chunks were typed
  differently is put together as objects. The script does no floating-point arithmetic
  of its own, so a float is given by the number it denotes, or by the sign of its infinity.
\<close>

datatype float64 = Finite real | Infinity bool

datatype obj = OBool bool | OInt int | OFloat float64 | OStr string | ONaN

datatype series =
    SInt "int list"
  | SFloat "float64 option list"
  | SBool "bool list"
  | SObject "obj list"

type_synonym frame = "(string \<times> series) list"

text \<open>The entries of a column as Python sees them, whatever the dtype.\<close>

datatype cell = CInt int | CFloat float64 | CBool bool | CStr string | CNaN

fun obj_cell :: "obj \<Rightarrow> cell" where
  "obj_cell (OBool b) = CBool b"
| "obj_cell (OInt i) = CInt i"
| "obj_cell (OFloat x) = CFloat x"
| "obj_cell (OStr s) = CStr s"
| "obj_cell ONaN = CNaN"

fun float_cell :: "float64 option \<Rightarrow> cell" where
  "float_cell None = CNaN"
| "float_cell (Some x) = CFloat x"

fun cells :: "series \<Rightarrow> cell list" where
  "cells (SInt xs) = map CInt xs"
| "cells (SFloat xs) = map float_cell xs"
| "cells (SBool xs) = map CBool xs"
| "cells (SObject xs) = map obj_cell xs"

text \<open>
  Python's \<^verbatim>\<open>==\<close> compares numbers by value across \<^verbatim>\<open>bool\<close>, \<^verbatim>\<open>int\<close> and \<^verbatim>\<open>float\<close>:
  \<^verbatim>\<open>True == 1 == 1.0\<close>, and the three hash alike. pandas compares and hashes the entries of
  an \<^verbatim>\<open>object\<close> column in this way, and takes NaN to be equal to itself. Two entries are
  equal for Python exactly when they have the same value.
\<close>

datatype pyval = VNum real | VInf bool | VStr string | VNaN

fun value_of :: "cell \<Rightarrow> pyval" where
  "value_of (CInt i) = VNum (of_int i)"
| "value_of (CFloat (Finite x)) = VNum x"
| "value_of (CFloat (Infinity positive)) = VInf positive"
| "value_of (CBool b) = VNum (if b then 1 else 0)"
| "value_of (CStr s) = VStr s"
| "value_of CNaN = VNaN"

fun is_object :: "series \<Rightarrow> bool" where
  "is_object (SObject xs) = True"
| "is_object s = False"

definition columns :: "frame \<Rightarrow> string list" where
  "columns df = map fst df"

text \<open>
  \<^verbatim>\<open>df[c]\<close> raises \<^verbatim>\<open>KeyError\<close> when no column is named \<open>c\<close>. \<^verbatim>\<open>df[c] = s\<close> overwrites the
  column in place, or appends it when the name is new. \<^verbatim>\<open>read_csv\<close> makes the names of
  a header distinct (a repeated name gets a numeric suffix), and on such frames the two
  functions are what pandas does.
\<close>

definition getitem :: "frame \<Rightarrow> string \<Rightarrow> py_error + series" where
  "getitem df c = (case map_of df c of None \<Rightarrow> Inl (KeyError c) | Some s \<Rightarrow> Inr s)"

definition setitem :: "frame \<Rightarrow> string \<Rightarrow> series \<Rightarrow> frame" where
  "setitem df c s =
     (if c \<in> set (columns df) then map (\<lambda>(n, x). (n, if n = c then s else x)) df
      else df @ [(c, s)])"

text \<open>
  \<^verbatim>\<open>Series.replace(b, s)\<close> for a boolean \<open>b\<close> and a string \<open>s\<close>. An \<^verbatim>\<open>int64\<close> or
  \<^verbatim>\<open>float64\<close> column cannot hold a boolean, so pandas returns it as it is (there \<open>1\<close> is
  not taken for \<open>True\<close>). A \<^verbatim>\<open>bool\<close> column in which \<open>b\<close> occurs becomes an \<^verbatim>\<open>object\<close>
  column; one in which it does not occur is returned as it is. In an \<^verbatim>\<open>object\<close> column
  every entry that \<^verbatim>\<open>==\<close> takes to be equal to \<open>b\<close> is replaced: the boolean itself, and
  the integer and the float of the same value.
\<close>

fun replace :: "bool \<Rightarrow> string \<Rightarrow> series \<Rightarrow> series" where
  "replace b s (SInt xs) = SInt xs"
| "replace b s (SFloat xs) = SFloat xs"
| "replace b s (SBool xs) =
     (if b \<in> set xs then SObject (map (\<lambda>x. if x = b then OStr s else OBool x) xs)
      else SBool xs)"
| "replace b s (SObject xs) =
     SObject (map (\<lambda>x. if value_of (obj_cell x) = value_of (CBool b) then OStr s else x) xs)"

text \<open>\<^verbatim>\<open>df.rename(columns=m)\<close>: a name that is a key of \<open>m\<close> is replaced, once.\<close>

definition rename :: "(string \<times> string) list \<Rightarrow> frame \<Rightarrow> frame" where
  "rename m df = map (\<lambda>(n, s). (case map_of m n of None \<Rightarrow> n | Some d \<Rightarrow> d, s)) df"

definition select_dtypes_object :: "frame \<Rightarrow> frame" where
  "select_dtypes_object df = filter (\<lambda>(n, s). is_object s) df"

subsection \<open>Data wrangling (lines 41 to 59)\<close>

definition normalize_label :: "frame \<Rightarrow> py_error + frame" where
  "normalize_label train_df =
     (case getitem train_df ''Churn'' of
        Inl e \<Rightarrow> Inl e
      | Inr s1 \<Rightarrow>
          (let df1 = setitem train_df ''Churn'' (replace True ''True'' s1) in
           case getitem df1 ''Churn'' of
             Inl e \<Rightarrow> Inl e
           | Inr s2 \<Rightarrow> Inr (setitem df1 ''Churn'' (replace False ''False'' s2))))"

definition column_names :: "(string \<times> string) list" where
  "column_names =
     [(''tenure'', ''Tenure''),
      (''SeniorCitizen'', ''Senior Citizen''),
      (''MonthlyCharges'', ''Monthly Charges''),
      (''TotalCharges'', ''Total Charges''),
      (''InternetService'', ''Internet Service''),
      (''MultipleLines'', ''Multiple Lines''),
      (''OnlineSecurity'', ''Online Security''),
      (''OnlineBackup'', ''Online Backup''),
      (''DeviceProtection'', ''Device Protection''),
      (''StreamingMovies'', ''Streaming Movies''),
      (''StreamingTV'', ''Streaming TV''),
      (''PhoneService'', ''Phone Service''),
      (''TechSupport'', ''Tech Support''),
      (''PaperlessBilling'', ''Paperless Billing''),
      (''PaymentMethod'', ''Payment Method'')]"

definition wrangle :: "frame \<Rightarrow> py_error + frame" where
  "wrangle df =
     (case normalize_label df of
        Inl e \<Rightarrow> Inl e
      | Inr df2 \<Rightarrow> Inr (rename column_names df2))"

subsection \<open>The summary table of the categorical features (lines 94 to 102)\<close>

text \<open>
  \<^verbatim>\<open>unique()\<close> lists the values of a column in the order of their first occurrence, NaN
  among them, and takes two entries for the same when they are equal for Python;
  \<^verbatim>\<open>nunique()\<close> counts the distinct values that are not NaN; \<^verbatim>\<open>isnull().sum()\<close> counts
  the NaN entries.
\<close>

fun unique_from :: "cell list \<Rightarrow> cell list \<Rightarrow> cell list" where
  "unique_from seen [] = seen"
| "unique_from seen (x # xs) =
     (if value_of x \<in> set (map value_of seen) then unique_from seen xs
      else unique_from (seen @ [x]) xs)"

definition unique :: "cell list \<Rightarrow> cell list" where
  "unique xs = unique_from [] xs"

definition nunique :: "cell list \<Rightarrow> nat" where
  "nunique xs = length (unique (filter (\<lambda>x. x \<noteq> CNaN) xs))"

definition isnull_sum :: "cell list \<Rightarrow> nat" where
  "isnull_sum xs = length (filter (\<lambda>x. x = CNaN) xs)"

datatype stats_row =
  Stats_row (Feature: string) (Unique_values: "cell list") (Categories: nat)
    (Missing_values: nat)

text \<open>
  \<^verbatim>\<open>train_cat[c]\<close> is a Series when exactly one column is named \<open>c\<close>. After the renaming
  two columns can share a name; then \<^verbatim>\<open>train_cat[c]\<close> is a DataFrame, which has no
  \<^verbatim>\<open>unique\<close>, and the loop raises \<^verbatim>\<open>AttributeError\<close>.
\<close>

definition series_of :: "frame \<Rightarrow> string \<Rightarrow> py_error + series" where
  "series_of df c =
     (case filter (\<lambda>(n, s). n = c) df of
        [] \<Rightarrow> Inl (KeyError c)
      | [(n, s)] \<Rightarrow> Inr s
      | _ \<Rightarrow> Inl (AttributeError ''unique''))"

definition stats_of :: "string \<Rightarrow> series \<Rightarrow> stats_row" where
  "stats_of c s = Stats_row c (unique (cells s)) (nunique (cells s)) (isnull_sum (cells s))"

fun catfeatures_loop ::
  "frame \<Rightarrow> string list \<Rightarrow> stats_row list \<Rightarrow> py_error + stats_row list" where
  "catfeatures_loop train_cat [] stats = Inr stats"
| "catfeatures_loop train_cat (c # cs) stats =
     (case series_of train_cat c of
        Inl e \<Rightarrow> Inl e
      | Inr s \<Rightarrow> catfeatures_loop train_cat cs (stats @ [stats_of c s]))"

definition build_catfeatures_stats :: "frame \<Rightarrow> py_error + stats_row list" where
  "build_catfeatures_stats train_df =
     (let train_cat = select_dtypes_object train_df
      in catfeatures_loop train_cat (columns train_cat) [])"

subsection \<open>The chart specifications (lines 62 to 86 and 104 to 127)\<close>

text \<open>
  An altair chart is described by its mark, its encoding channels and the list of fields
  it is repeated over (empty when the chart is not repeated). Sizes, opacity and fonts
  are left out.
\<close>

datatype mark = Mark_bar | Mark_square

datatype vtype = Quantitative | Nominal

datatype field = Field string | Repeat vtype

datatype channel = Enc_x | Enc_y | Enc_color | Enc_size

datatype chart_spec =
  Chart (chart_title: "string option") (chart_mark: mark)
    (chart_encode: "(channel \<times> field) list") (chart_repeat: "string list")

definition class_imbalance_spec :: chart_spec where
  "class_imbalance_spec =
     Chart (Some ''Class imbalance'') Mark_bar
       [(Enc_x, Field ''count()''), (Enc_y, Field ''Churn:N''), (Enc_color, Field ''Churn'')]
       []"

definition numeric_feat_dist_spec :: chart_spec where
  "numeric_feat_dist_spec =
     Chart None Mark_bar
       [(Enc_x, Repeat Quantitative), (Enc_y, Field ''count()''), (Enc_color, Field ''Churn'')]
       [''Tenure'', ''Monthly Charges'', ''Total Charges'']"

definition cat_feat_churn_dist_spec :: chart_spec where
  "cat_feat_churn_dist_spec =
     Chart None Mark_bar
       [(Enc_x, Field ''count()''), (Enc_y, Repeat Nominal), (Enc_color, Field ''Churn'')]
       [''Senior Citizen'', ''Partner'', ''Dependents'']"

definition cat_feat_2dhist_spec :: chart_spec where
  "cat_feat_2dhist_spec =
     Chart None Mark_square
       [(Enc_x, Repeat Nominal), (Enc_y, Field ''Churn''), (Enc_color, Field ''count()''),
        (Enc_size, Field ''count()'')]
       [''Contract'', ''Internet Service'', ''Multiple Lines'', ''Online Security'',
        ''Online Backup'', ''Device Protection'', ''Streaming Movies'', ''Streaming TV'',
        ''Phone Service'', ''Tech Support'', ''Paperless Billing'', ''Payment Method'']"

subsection \<open>The outside world\<close>

text \<open>
  Each library call the script makes is a field: the call returns a value or raises.
  A figure is an object of the open type \<open>'g\<close>, or Python's \<^verbatim>\<open>None\<close>. Lines 88 to 91
  (the correlation matrix, then the matplotlib figure and the heatmap drawn on it) are
  the fields \<open>df_corr\<close> and \<open>sns_heatmap\<close>. A call that writes a file returns \<open>None\<close> when
  the file has been written and the exception otherwise.
\<close>

record 'g libs =
  os_path_exists :: "string \<Rightarrow> bool"
  os_makedirs :: "string \<Rightarrow> py_error option"
  pd_read_csv :: "string \<Rightarrow> py_error + frame"
  alt_chart :: "chart_spec \<Rightarrow> frame \<Rightarrow> py_error + 'g option"
  df_corr :: "frame \<Rightarrow> py_error + frame"
  sns_heatmap :: "frame \<Rightarrow> py_error + 'g option"
  dfi_export :: "stats_row list \<Rightarrow> string \<Rightarrow> py_error option"
  chart_save :: "'g \<Rightarrow> string \<Rightarrow> py_error option"
  figure_savefig :: "'g \<Rightarrow> string \<Rightarrow> py_error option"

text \<open>
  What a run leaves behind: the lines printed, the directories created, the files
  written, and the summaries computed so far, each in the order it happened.
\<close>

datatype summary =
    Class_imbalance
  | Numeric_feat_dist
  | Numeric_feat_corr
  | Catfeatures_stats
  | Cat_feat_churn_dist
  | Cat_feat_2dhist

record world =
  stdout :: "string list"
  made_dirs :: "string list"
  written :: "string list"
  computed :: "summary list"

type_synonym 'a prog = "world \<Rightarrow> (py_error + 'a) \<times> world"

definition and_then :: "'a prog \<Rightarrow> ('a \<Rightarrow> 'b prog) \<Rightarrow> 'b prog" where
  "and_then m f w = (case m w of (Inl e, w') \<Rightarrow> (Inl e, w') | (Inr a, w') \<Rightarrow> f a w')"

definition of_result :: "py_error + 'a \<Rightarrow> 'a prog" where
  "of_result r w = (r, w)"

definition print :: "string \<Rightarrow> unit prog" where
  "print s w = (Inr (), w\<lparr>stdout := stdout w @ [s]\<rparr>)"

definition computing :: "summary \<Rightarrow> py_error + 'a \<Rightarrow> 'a prog" where
  "computing k r w =
     (case r of Inl e \<Rightarrow> (Inl e, w) | Inr a \<Rightarrow> (Inr a, w\<lparr>computed := computed w @ [k]\<rparr>))"

definition writing :: "string \<Rightarrow> py_error option \<Rightarrow> unit prog" where
  "writing path r w =
     (case r of Some e \<Rightarrow> (Inl e, w) | None \<Rightarrow> (Inr (), w\<lparr>written := written w @ [path]\<rparr>))"

subsection \<open>The script: \<^verbatim>\<open>test_figs\<close> and \<^verbatim>\<open>main\<close>\<close>

definition test_figs :: "'g option \<Rightarrow> py_error + unit" where
  "test_figs fig = (if fig \<noteq> None then Inr () else Inl (AssertionError ''Output figure is empty''))"

text \<open>Lines 31 to 36. The bare \<^verbatim>\<open>except\<close> catches whatever \<^verbatim>\<open>os.makedirs\<close> raises.\<close>

definition ensure_out_dir :: "'g libs \<Rightarrow> string \<Rightarrow> unit prog" where
  "ensure_out_dir env out_dir w =
     (if \<not> os_path_exists env out_dir then
        (case os_makedirs env out_dir of
           None \<Rightarrow> (Inr (), w\<lparr>made_dirs := made_dirs w @ [out_dir]\<rparr>)
         | Some e \<Rightarrow> print ''Wasn't able to create output directory. Check permissions.'' w)
      else (Inr (), w))"

text \<open>The values bound by lines 61 to 127, under the names the script gives them.\<close>

record 'g report =
  target_class_imbalance :: "'g option"
  numeric_feat_dist :: "'g option"
  numeric_feat_corr :: "'g option"
  catfeatures_stats :: "stats_row list"
  cat_feat_churn_dist :: "'g option"
  cat_feat_2dhist :: "'g option"

definition summaries :: "'g libs \<Rightarrow> frame \<Rightarrow> 'g report prog" where
  "summaries env train_df =
     and_then (computing Class_imbalance (alt_chart env class_imbalance_spec train_df)) (\<lambda>f1.
     and_then (computing Numeric_feat_dist (alt_chart env numeric_feat_dist_spec train_df)) (\<lambda>f2.
     and_then (of_result (df_corr env train_df)) (\<lambda>cor.
     and_then (computing Numeric_feat_corr (sns_heatmap env cor)) (\<lambda>f3.
     and_then (computing Catfeatures_stats (build_catfeatures_stats train_df)) (\<lambda>stats.
     and_then (computing Cat_feat_churn_dist (alt_chart env cat_feat_churn_dist_spec train_df)) (\<lambda>f4.
     and_then (computing Cat_feat_2dhist (alt_chart env cat_feat_2dhist_spec train_df)) (\<lambda>f5.
     of_result (Inr \<lparr>target_class_imbalance = f1, numeric_feat_dist = f2,
       numeric_feat_corr = f3, catfeatures_stats = stats, cat_feat_churn_dist = f4,
       cat_feat_2dhist = f5\<rparr>))))))))"

text \<open>Lines 131 to 135.\<close>

definition check_figs :: "'g report \<Rightarrow> unit prog" where
  "check_figs r =
     and_then (of_result (test_figs (target_class_imbalance r))) (\<lambda>_.
     and_then (of_result (test_figs (numeric_feat_corr r))) (\<lambda>_.
     and_then (of_result (test_figs (cat_feat_churn_dist r))) (\<lambda>_.
     and_then (of_result (test_figs (cat_feat_2dhist r))) (\<lambda>_.
     of_result (test_figs (numeric_feat_dist r))))))"

text \<open>
  Lines 139 to 146. Each path is the f-string \<^verbatim>\<open>f"{out_dir}name"\<close>. Calling \<^verbatim>\<open>save\<close> or
  \<^verbatim>\<open>figure\<close> on \<^verbatim>\<open>None\<close> would raise \<^verbatim>\<open>AttributeError\<close>.
\<close>

definition save :: "'g libs \<Rightarrow> 'g option \<Rightarrow> string \<Rightarrow> unit prog" where
  "save env fig path =
     (case fig of
        None \<Rightarrow> of_result (Inl (AttributeError ''save''))
      | Some g \<Rightarrow> writing path (chart_save env g path))"

definition savefig :: "'g libs \<Rightarrow> 'g option \<Rightarrow> string \<Rightarrow> unit prog" where
  "savefig env fig path =
     (case fig of
        None \<Rightarrow> of_result (Inl (AttributeError ''figure''))
      | Some g \<Rightarrow> writing path (figure_savefig env g path))"

definition export :: "'g libs \<Rightarrow> stats_row list \<Rightarrow> string \<Rightarrow> unit prog" where
  "export env stats path = writing path (dfi_export env stats path)"

definition save_outputs :: "'g libs \<Rightarrow> string \<Rightarrow> 'g report \<Rightarrow> unit prog" where
  "save_outputs env out_dir r =
     and_then (export env (catfeatures_stats r) (out_dir @ ''table_1_cat_unique_values.png'')) (\<lambda>_.
     and_then (save env (target_class_imbalance r) (out_dir @ ''figure_1_class_imbalance.png'')) (\<lambda>_.
     and_then (save env (numeric_feat_dist r) (out_dir @ ''figure_2_numeric_feat_dist.png'')) (\<lambda>_.
     and_then (savefig env (numeric_feat_corr r) (out_dir @ ''figure_3_numeric_feat_corr.png'')) (\<lambda>_.
     and_then (save env (cat_feat_churn_dist r) (out_dir @ ''figure_4_cat_feat_churn_dist.png'')) (\<lambda>_.
     and_then (save env (cat_feat_2dhist r) (out_dir @ ''figure_5_cat_feat_2dhist.png'')) (\<lambda>_.
     print (''EDA reports successfully stored in: '' @ '' '' @ out_dir)))))))"

definition main :: "'g libs \<Rightarrow> string \<Rightarrow> string \<Rightarrow> unit prog" where
  "main env input out_dir =
     and_then (ensure_out_dir env out_dir) (\<lambda>_.
     and_then (of_result (pd_read_csv env input)) (\<lambda>df.
     and_then (of_result (wrangle df)) (\<lambda>train_df.
     and_then (summaries env train_df) (\<lambda>r.
     and_then (check_figs r) (\<lambda>_.
     save_outputs env out_dir r)))))"

subsection \<open>A small data set and a cooperative outside world\<close>

text \<open>
  Three customers, in the shape of the Telco churn file: an identifier, two numeric
  features, a categorical feature with a missing entry, and the label parsed as
  booleans. Figures are numbered.
\<close>

definition telco :: frame where
  "telco =
     [(''customerID'', SObject [OStr ''7590-VHVEG'', OStr ''5575-GNVDE'', OStr ''3668-QPYBK'']),
      (''tenure'', SInt [1, 34, 2]),
      (''MonthlyCharges'', SFloat [Some (Finite 30), Some (Finite 57), None]),
      (''PaymentMethod'', SObject [OStr ''Mailed check'', ONaN, OStr ''Mailed check'']),
      (''Churn'', SBool [False, False, True])]"

definition telco_processed :: frame where
  "telco_processed =
     [(''customerID'', SObject [OStr ''7590-VHVEG'', OStr ''5575-GNVDE'', OStr ''3668-QPYBK'']),
      (''Tenure'', SInt [1, 34, 2]),
      (''Monthly Charges'', SFloat [Some (Finite 30), Some (Finite 57), None]),
      (''Payment Method'', SObject [OStr ''Mailed check'', ONaN, OStr ''Mailed check'']),
      (''Churn'', SObject [OStr ''False'', OStr ''False'', OStr ''True''])]"

definition fig_id :: "chart_spec \<Rightarrow> nat" where
  "fig_id spec = length (chart_encode spec) + length (chart_repeat spec)"

definition friendly :: "nat libs" where
  "friendly =
     \<lparr>os_path_exists = (\<lambda>p. False),
      os_makedirs = (\<lambda>p. None),
      pd_read_csv = (\<lambda>p. if p = ''data/train.csv'' then Inr telco
                          else Inl (Raised ''FileNotFoundError'')),
      alt_chart = (\<lambda>spec df. Inr (Some (fig_id spec))),
      df_corr = (\<lambda>df. Inr []),
      sns_heatmap = (\<lambda>cor. Inr (Some 0)),
      dfi_export = (\<lambda>stats path. None),
      chart_save = (\<lambda>g path. None),
      figure_savefig = (\<lambda>g path. None)\<rparr>"

definition fresh :: world where
  "fresh = \<lparr>stdout = [], made_dirs = [], written = [], computed = []\<rparr>"

subsection \<open>Notions the specification uses\<close>

text \<open>
  What lines 42 and 43 make of an entry of a \<^verbatim>\<open>bool\<close> or \<^verbatim>\<open>object\<close> column: an entry
  equal to \<open>True\<close> becomes the string \<open>True\<close>, one equal to \<open>False\<close> the string \<open>False\<close>, and
  any other stays. Columns of the other two dtypes are not acted on.
\<close>

definition literal :: "cell \<Rightarrow> cell" where
  "literal c =
     (if value_of c = value_of (CBool True) then CStr ''True''
      else if value_of c = value_of (CBool False) then CStr ''False''
      else c)"

fun acted_on :: "series \<Rightarrow> bool" where
  "acted_on (SBool xs) = True"
| "acted_on (SObject xs) = True"
| "acted_on s = False"

text \<open>The same on values.\<close>

definition literal_value :: "pyval \<Rightarrow> pyval" where
  "literal_value v =
     (if v = VNum 1 then VStr ''True'' else if v = VNum 0 then VStr ''False'' else v)"



definition churn_with_gap :: frame where
  "churn_with_gap =
     [(''tenure'', SInt [5, 12, 7]), (''Churn'', SObject [OBool True, ONaN, OBool False])]"

definition churn_with_gap_normalized :: frame where
  "churn_with_gap_normalized =
     [(''tenure'', SInt [5, 12, 7]), (''Churn'', SObject [OStr ''True'', ONaN, OStr ''False''])]"

definition churn_ones :: frame where
  "churn_ones = [(''tenure'', SInt [5, 12]), (''Churn'', SObject [OInt 1, OStr ''Yes''])]"

definition churn_ones_normalized :: frame where
  "churn_ones_normalized =
     [(''tenure'', SInt [5, 12]), (''Churn'', SObject [OStr ''True'', OStr ''Yes''])]"

text \<open>
  A column is numeric when pandas counts it among the numeric data, as \<^verbatim>\<open>corr\<close> does:
  integers, floats and booleans. The others are the \<^verbatim>\<open>object\<close> columns.
\<close>

fun is_numeric :: "series \<Rightarrow> bool" where
  "is_numeric (SInt xs) = True"
| "is_numeric (SFloat xs) = True"
| "is_numeric (SBool xs) = True"
| "is_numeric (SObject xs) = False"

text \<open>
  Counting a column directly: its distinct values other than NaN, where entries equal
  for Python are one value, and its NaN entries.
\<close>

definition distinct_non_null :: "cell list \<Rightarrow> nat" where
  "distinct_non_null xs = card (value_of ` set xs - {VNaN})"

definition missing :: "cell list \<Rightarrow> nat" where
  "missing xs = count_list xs CNaN"

text \<open>
  A column that holds a value equal to \<open>True\<close> beside the string \<open>True\<close>, or one equal to
  \<open>False\<close> beside the string \<open>False\<close>, is mixed: lines 42 and 43 merge the two.
\<close>

definition unmixed :: "cell list \<Rightarrow> bool" where
  "unmixed xs =
     (\<not> (VNum 1 \<in> value_of ` set xs \<and> VStr ''True'' \<in> value_of ` set xs) \<and>
      \<not> (VNum 0 \<in> value_of ` set xs \<and> VStr ''False'' \<in> value_of ` set xs))"

definition label_unmixed :: "frame \<Rightarrow> bool" where
  "label_unmixed df = (case getitem df ''Churn'' of Inl e \<Rightarrow> True | Inr s \<Rightarrow> unmixed (cells s))"

text \<open>
  A file with the two headers \<open>tenure\<close> and \<open>Tenure\<close>, both over text: after the renaming
  two object columns are called \<open>Tenure\<close>.
\<close>

definition twin_names :: frame where
  "twin_names =
     [(''tenure'', SObject [OStr ''short'', OStr ''long'']),
      (''Tenure'', SObject [OStr ''new'', OStr ''old'']),
      (''Churn'', SBool [False, True])]"

definition twin_names_processed :: frame where
  "twin_names_processed =
     [(''Tenure'', SObject [OStr ''short'', OStr ''long'']),
      (''Tenure'', SObject [OStr ''new'', OStr ''old'']),
      (''Churn'', SObject [OStr ''False'', OStr ''True''])]"

text \<open>A label column that holds the boolean \<open>True\<close> beside the string \<open>True\<close>.\<close>

definition churn_mixed :: frame where
  "churn_mixed = [(''Churn'', SObject [OBool True, OStr ''True'', OStr ''No''])]"

definition churn_mixed_processed :: frame where
  "churn_mixed_processed = [(''Churn'', SObject [OStr ''True'', OStr ''True'', OStr ''No''])]"

definition twins :: "nat libs" where
  "twins = friendly\<lparr>pd_read_csv := (\<lambda>p. Inr twin_names)\<rparr>"

text \<open>The six file names of lines 139 to 144, in the order they are written.\<close>

definition output_names :: "string list" where
  "output_names =
     [''table_1_cat_unique_values.png'',
      ''figure_1_class_imbalance.png'',
      ''figure_2_numeric_feat_dist.png'',
      ''figure_3_numeric_feat_corr.png'',
      ''figure_4_cat_feat_churn_dist.png'',
      ''figure_5_cat_feat_2dhist.png'']"







text \<open>The order in which lines 61 to 127 compute the six summaries.\<close>

definition summary_order :: "summary list" where
  "summary_order =
     [Class_imbalance, Numeric_feat_dist, Numeric_feat_corr, Catfeatures_stats,
      Cat_feat_churn_dist, Cat_feat_2dhist]"

text \<open>The order the specification gives, with the table last.\<close>

definition specified_order :: "summary list" where
  "specified_order =
     [Class_imbalance, Numeric_feat_dist, Numeric_feat_corr, Cat_feat_churn_dist,
      Cat_feat_2dhist, Catfeatures_stats]"

text \<open>A run ends with the exception \<open>e\<close>.\<close>

definition raises :: "unit prog \<Rightarrow> world \<Rightarrow> py_error \<Rightarrow> bool" where
  "raises m w e = (fst (m w) = Inl e)"

text \<open>
  Less cooperative worlds: the output directory cannot be created, the CSV cannot be
  parsed, the CSV has no label column, the last of the six files cannot be written, and
  seaborn hands back \<^verbatim>\<open>None\<close>.
\<close>

definition no_permission :: "nat libs" where
  "no_permission = friendly\<lparr>os_makedirs := (\<lambda>p. Some (Raised ''PermissionError''))\<rparr>"

definition malformed :: "nat libs" where
  "malformed = friendly\<lparr>pd_read_csv := (\<lambda>p. Inl (Raised ''ParserError''))\<rparr>"

definition unlabelled :: "nat libs" where
  "unlabelled = friendly\<lparr>pd_read_csv := (\<lambda>p. Inr [(''tenure'', SInt [1, 34, 2])])\<rparr>"

definition last_write_fails :: "nat libs" where
  "last_write_fails =
     friendly\<lparr>chart_save := (\<lambda>g path.
       if path = ''results/figure_5_cat_feat_2dhist.png'' then Some (Raised ''OSError'')
       else None)\<rparr>"

definition no_heatmap :: "nat libs" where
  "no_heatmap = friendly\<lparr>sns_heatmap := (\<lambda>cor. Inr None)\<rparr>"

section \<open>Properties\<close>

subsection \<open>Looking a column up and overwriting it\<close>

lemma getitem_columns: "getitem df c = Inr s \<Longrightarrow> c \<in> set (columns df)"
  by (auto simp: getitem_def columns_def split: option.splits dest: map_of_SomeD
      intro: rev_image_eqI)

lemma map_of_overwrite:
  "map_of df c = Some s \<Longrightarrow> map_of (map (\<lambda>(n, x). (n, if n = c then t else x)) df) c = Some t"
  by (induction df) (auto split: if_splits)

lemma getitem_setitem:
  "getitem df c = Inr s \<Longrightarrow> getitem (setitem df c t) c = Inr t"
  using getitem_columns[of df c s]
  by (auto simp: getitem_def setitem_def map_of_overwrite split: option.splits)

lemma columns_overwrite: "columns (map (\<lambda>(n, x). (n, if n = c then t else x)) df) = columns df"
  by (induction df) (auto simp: columns_def)

lemma setitem_twice:
  "c \<in> set (columns df) \<Longrightarrow>
   setitem (setitem df c t) c u = map (\<lambda>(n, x). (n, if n = c then u else x)) df"
  by (simp add: setitem_def columns_overwrite) (induction df, auto)

lemma normalize_label_eq:
  assumes "normalize_label df = Inr df'"
  shows "\<exists>s. getitem df ''Churn'' = Inr s \<and>
    df' = map (\<lambda>(n, x). (n, if n = ''Churn''
                  then replace False ''False'' (replace True ''True'' s) else x)) df"
proof -
  from assms obtain s where s: "getitem df ''Churn'' = Inr s"
    by (auto simp: normalize_label_def split: sum.splits)
  let ?t = "replace True ''True'' s"
  have c: "''Churn'' \<in> set (columns df)" using s by (rule getitem_columns)
  have g: "getitem (setitem df ''Churn'' ?t) ''Churn'' = Inr ?t" using s by (rule getitem_setitem)
  have "df' = setitem (setitem df ''Churn'' ?t) ''Churn'' (replace False ''False'' ?t)"
    using assms s g by (simp add: normalize_label_def Let_def)
  then show ?thesis using s setitem_twice[OF c] by simp
qed

lemma nth_series:
  "distinct (columns df) \<Longrightarrow> i < length df \<Longrightarrow> getitem df (fst (df ! i)) = Inr (snd (df ! i))"
proof -
  assume d: "distinct (columns df)" and i: "i < length df"
  have "(fst (df ! i), snd (df ! i)) \<in> set df" using i by simp
  then have "map_of df (fst (df ! i)) = Some (snd (df ! i))"
    using d unfolding columns_def by (rule map_of_is_SomeI[rotated])
  then show ?thesis by (simp add: getitem_def)
qed

subsection \<open>The renaming of line 45\<close>

lemma column_names_keys: "length column_names = 15 \<and> distinct (map fst column_names)"
  by (simp add: column_names_def)

lemma wrangle_eq:
  assumes "wrangle df = Inr train_df"
  shows "\<exists>s. getitem df ''Churn'' = Inr s \<and>
    train_df = map (\<lambda>(n, x).
      (case map_of column_names n of None \<Rightarrow> n | Some d \<Rightarrow> d,
       if n = ''Churn'' then replace False ''False'' (replace True ''True'' s) else x)) df"
proof -
  from assms obtain df2 where n: "normalize_label df = Inr df2"
    and t: "train_df = rename column_names df2"
    by (auto simp: wrangle_def split: sum.splits)
  from normalize_label_eq[OF n] obtain s where s: "getitem df ''Churn'' = Inr s"
    and df2: "df2 = map (\<lambda>(n, x). (n, if n = ''Churn''
                  then replace False ''False'' (replace True ''True'' s) else x)) df"
    by blast
  have "train_df = map (\<lambda>(n, x).
      (case map_of column_names n of None \<Rightarrow> n | Some d \<Rightarrow> d,
       if n = ''Churn'' then replace False ''False'' (replace True ''True'' s) else x)) df"
    unfolding t df2 rename_def by (auto simp: case_prod_beta split: option.splits)
  with s show ?thesis by blast
qed

lemma wrangle_telco: "wrangle telco = Inr telco_processed"
  by (simp add: wrangle_def normalize_label_def telco_def getitem_def setitem_def columns_def
      rename_def column_names_def telco_processed_def)

text \<open>
  Claim C3: the mapping has 15 entries with distinct source names; in the processed
  frame a column whose input name is one of them carries the display name, and a column
  whose input name is none of them keeps its name. Every column stays in its place.
\<close>

theorem rename_step:
  assumes "distinct (columns df)" and "wrangle df = Inr train_df"
  shows "length column_names = 15 \<and> distinct (map fst column_names) \<and>
    length train_df = length df \<and>
    (\<forall>i < length df.
       (\<forall>d. (fst (df ! i), d) \<in> set column_names \<longrightarrow> fst (train_df ! i) = d) \<and>
       (fst (df ! i) \<notin> set (map fst column_names) \<longrightarrow> fst (train_df ! i) = fst (df ! i)))"
proof -
  from wrangle_eq[OF assms(2)] obtain s where
    t: "train_df = map (\<lambda>(n, x).
      (case map_of column_names n of None \<Rightarrow> n | Some d \<Rightarrow> d,
       if n = ''Churn'' then replace False ''False'' (replace True ''True'' s) else x)) df"
    by blast
  have keys: "distinct (map fst column_names)" using column_names_keys by simp
  have name: "fst (train_df ! i) =
      (case map_of column_names (fst (df ! i)) of None \<Rightarrow> fst (df ! i) | Some d \<Rightarrow> d)"
    if "i < length df" for i
    using that by (simp add: t case_prod_beta)
  have present: "fst (train_df ! i) = d"
    if "i < length df" and "(fst (df ! i), d) \<in> set column_names" for i d
  proof -
    from keys that(2) have "map_of column_names (fst (df ! i)) = Some d"
      by (rule map_of_is_SomeI)
    with name[OF that(1)] show ?thesis by simp
  qed
  have absent: "fst (train_df ! i) = fst (df ! i)"
    if "i < length df" and "fst (df ! i) \<notin> set (map fst column_names)" for i
  proof -
    from that(2) have "map_of column_names (fst (df ! i)) = None"
      by (simp add: map_of_eq_None_iff)
    with name[OF that(1)] show ?thesis by simp
  qed
  have "length train_df = length df" by (simp add: t)
  with column_names_keys present absent show ?thesis by blast
qed

theorem rename_step_witness:
  "distinct (columns telco) \<and> (\<exists>train_df. wrangle telco = Inr train_df \<and>
     fst (telco ! 1) = ''tenure'' \<and> fst (train_df ! 1) = ''Tenure'' \<and>
     fst (telco ! 0) = ''customerID'' \<and> fst (train_df ! 0) = ''customerID'')"
proof -
  have d: "distinct (columns telco)" by (simp add: telco_def columns_def)
  obtain train_df where w: "wrangle telco = Inr train_df" using wrangle_telco by blast
  have i: "(0::nat) < length telco" "(1::nat) < length telco" by (simp_all add: telco_def)
  have n: "fst (telco ! 1) = ''tenure''" "fst (telco ! 0) = ''customerID''"
    by (simp_all add: telco_def)
  have k: "(''tenure'', ''Tenure'') \<in> set column_names"
    "''customerID'' \<notin> set (map fst column_names)"
    by (simp_all add: column_names_def)
  from rename_step[OF d w] have all: "\<forall>i < length telco.
       (\<forall>d. (fst (telco ! i), d) \<in> set column_names \<longrightarrow> fst (train_df ! i) = d) \<and>
       (fst (telco ! i) \<notin> set (map fst column_names) \<longrightarrow> fst (train_df ! i) = fst (telco ! i))"
    by blast
  from all[rule_format, OF i(2)] n(1) k(1) have a: "fst (train_df ! 1) = ''Tenure''" by metis
  from all[rule_format, OF i(1)] n(2) k(2) have b: "fst (train_df ! 0) = ''customerID''" by metis
  from d w n a b show ?thesis by blast
qed

subsection \<open>The loop of lines 97 to 102\<close>

lemma filter_name:
  "distinct (map fst tc) \<Longrightarrow> (c, s) \<in> set tc \<Longrightarrow> filter (\<lambda>(n, x). n = c) tc = [(c, s)]"
proof (induction tc)
  case Nil
  then show ?case by simp
next
  case (Cons a tc)
  show ?case
  proof (cases "a = (c, s)")
    case True
    with Cons.prems(1) have "\<forall>p \<in> set tc. fst p \<noteq> c" by force
    then have "filter (\<lambda>(n, x). n = c) tc = []" by (auto simp: filter_empty_conv)
    with True show ?thesis by simp
  next
    case False
    with Cons.prems have m: "(c, s) \<in> set tc" and d: "distinct (map fst tc)" by auto
    from m have "c \<in> fst ` set tc" by (rule rev_image_eqI) simp
    with Cons.prems(1) have "fst a \<noteq> c" by auto
    with Cons.IH[OF d m] show ?thesis by (simp add: case_prod_beta)
  qed
qed

lemma series_of_member:
  "distinct (columns tc) \<Longrightarrow> (c, s) \<in> set tc \<Longrightarrow> series_of tc c = Inr s"
  by (simp add: series_of_def columns_def filter_name)

lemma catfeatures_loop_eq:
  assumes "distinct (columns tc)"
  shows "set cs \<subseteq> set tc \<Longrightarrow>
    catfeatures_loop tc (map fst cs) stats = Inr (stats @ map (\<lambda>(n, s). stats_of n s) cs)"
proof (induction cs arbitrary: stats)
  case Nil
  then show ?case by simp
next
  case (Cons a cs)
  obtain c s where a: "a = (c, s)" by (cases a)
  with Cons.prems have "(c, s) \<in> set tc" by simp
  with assms have "series_of tc c = Inr s" by (rule series_of_member)
  moreover from Cons.prems have "set cs \<subseteq> set tc" by simp
  ultimately show ?case using Cons.IH[of "stats @ [stats_of c s]"] by (simp add: a)
qed

lemma build_catfeatures_stats_eq:
  assumes "distinct (columns (select_dtypes_object df))"
  shows "build_catfeatures_stats df =
    Inr (map (\<lambda>(n, s). stats_of n s) (select_dtypes_object df))"
  using catfeatures_loop_eq[OF assms, of "select_dtypes_object df" "[]"]
  by (simp add: build_catfeatures_stats_def columns_def Let_def)

subsection \<open>The steps of \<^verbatim>\<open>main\<close>, one at a time\<close>

lemma ensure_out_dir_ok:
  "\<exists>w1. ensure_out_dir env out_dir w = (Inr (), w1) \<and> written w1 = written w \<and>
     computed w1 = computed w"
  by (simp add: ensure_out_dir_def print_def split: option.splits)

lemma summaries_eq:
  assumes "alt_chart env class_imbalance_spec train_df = Inr f1"
    and "alt_chart env numeric_feat_dist_spec train_df = Inr f2"
    and "df_corr env train_df = Inr cor"
    and "sns_heatmap env cor = Inr f3"
    and "build_catfeatures_stats train_df = Inr stats"
    and "alt_chart env cat_feat_churn_dist_spec train_df = Inr f4"
    and "alt_chart env cat_feat_2dhist_spec train_df = Inr f5"
  shows "summaries env train_df w =
    (Inr \<lparr>target_class_imbalance = f1, numeric_feat_dist = f2, numeric_feat_corr = f3,
          catfeatures_stats = stats, cat_feat_churn_dist = f4, cat_feat_2dhist = f5\<rparr>,
     w\<lparr>computed := computed w @ summary_order\<rparr>)"
  using assms
  by (simp add: summaries_def and_then_def computing_def of_result_def summary_order_def)

lemma and_thenE:
  assumes "and_then m f w = (x, w')"
  obtains e where "m w = (Inl e, w')" and "x = Inl e"
  | a w1 where "m w = (Inr a, w1)" and "f a w1 = (x, w')"
  using assms by (auto simp: and_then_def split: prod.splits sum.splits)

lemma computing_Inl: "(computing k r w = (Inl e, w')) = (r = Inl e \<and> w' = w)"
  by (auto simp: computing_def split: sum.splits)

lemma computing_Inr:
  "(computing k r w = (Inr a, w')) = (r = Inr a \<and> w' = w\<lparr>computed := computed w @ [k]\<rparr>)"
  by (auto simp: computing_def split: sum.splits)

lemma of_result_iff: "(of_result r w = (x, w')) = (x = r \<and> w' = w)"
  by (auto simp: of_result_def)

lemma writing_Inl: "(writing path r w = (Inl e, w')) = (r = Some e \<and> w' = w)"
  by (auto simp: writing_def split: option.splits)

lemma writing_Inr:
  "(writing path r w = (Inr u, w')) = (r = None \<and> w' = w\<lparr>written := written w @ [path]\<rparr>)"
  by (auto simp: writing_def split: option.splits)

lemma print_iff: "(print s w = (x, w')) = (x = Inr () \<and> w' = w\<lparr>stdout := stdout w @ [s]\<rparr>)"
  by (auto simp: print_def)

lemma summaries_frame:
  assumes "summaries env train_df w = (x, w')"
  shows "written w' = written w \<and> stdout w' = stdout w \<and> made_dirs w' = made_dirs w \<and>
    computed w' = computed w @ take (length (computed w') - length (computed w)) summary_order \<and>
    (\<forall>r. x = Inr r \<longrightarrow> computed w' = computed w @ summary_order)"
  using assms unfolding summaries_def
  by (elim and_thenE)
    (simp_all add: computing_Inl computing_Inr of_result_iff summary_order_def)


lemma check_figs_eq:
  "check_figs r w =
    (if target_class_imbalance r \<noteq> None \<and> numeric_feat_corr r \<noteq> None \<and>
        cat_feat_churn_dist r \<noteq> None \<and> cat_feat_2dhist r \<noteq> None \<and>
        numeric_feat_dist r \<noteq> None
     then Inr () else Inl (AssertionError ''Output figure is empty''), w)"
  by (simp add: check_figs_def and_then_def of_result_def test_figs_def)

lemma save_iff:
  "(save env fig path w = (Inr u, w')) =
     (\<exists>g. fig = Some g \<and> chart_save env g path = None \<and>
        w' = w\<lparr>written := written w @ [path]\<rparr>)"
  "save env fig path w = (Inl e, w') \<Longrightarrow> w' = w"
  by (auto simp: save_def of_result_def writing_def split: option.splits)

lemma savefig_iff:
  "(savefig env fig path w = (Inr u, w')) =
     (\<exists>g. fig = Some g \<and> figure_savefig env g path = None \<and>
        w' = w\<lparr>written := written w @ [path]\<rparr>)"
  "savefig env fig path w = (Inl e, w') \<Longrightarrow> w' = w"
  by (auto simp: savefig_def of_result_def writing_def split: option.splits)

lemma export_iff:
  "(export env stats path w = (Inr u, w')) =
     (dfi_export env stats path = None \<and> w' = w\<lparr>written := written w @ [path]\<rparr>)"
  "(export env stats path w = (Inl e, w')) = (dfi_export env stats path = Some e \<and> w' = w)"
  by (auto simp: export_def writing_def split: option.splits)

lemma save_outputs_frame:
  assumes "save_outputs env out_dir r w = (x, w')"
  shows "computed w' = computed w \<and>
    written w' = written w @
      take (length (written w') - length (written w)) (map (\<lambda>n. out_dir @ n) output_names) \<and>
    (x = Inr () \<longrightarrow> written w' = written w @ map (\<lambda>n. out_dir @ n) output_names)"
  using assms unfolding save_outputs_def
  apply (elim and_thenE)
  apply (simp_all add: export_iff save_iff savefig_iff print_iff output_names_def)
  apply (auto dest: save_iff(2) savefig_iff(2))
  done


lemma and_then_of_result:
  "and_then (of_result r) f w = (case r of Inl e \<Rightarrow> (Inl e, w) | Inr a \<Rightarrow> f a w)"
  by (simp add: and_then_def of_result_def split: sum.splits)

lemma and_then_Inr: "m w = (Inr a, w1) \<Longrightarrow> and_then m f w = f a w1"
  by (simp add: and_then_def)

lemma and_then_Inl: "m w = (Inl e, w1) \<Longrightarrow> and_then m f w = (Inl e, w1)"
  by (simp add: and_then_def)

lemma main_unfold:
  "main env input out_dir w =
    (case pd_read_csv env input of
       Inl e \<Rightarrow> (Inl e, snd (ensure_out_dir env out_dir w))
     | Inr df \<Rightarrow>
        (case wrangle df of
           Inl e \<Rightarrow> (Inl e, snd (ensure_out_dir env out_dir w))
         | Inr train_df \<Rightarrow>
            (case summaries env train_df (snd (ensure_out_dir env out_dir w)) of
               (Inl e, w2) \<Rightarrow> (Inl e, w2)
             | (Inr r, w2) \<Rightarrow>
                (case fst (check_figs r w2) of
                   Inl e \<Rightarrow> (Inl e, w2)
                 | Inr u \<Rightarrow> save_outputs env out_dir r w2))))"
proof -
  obtain w1 where e: "ensure_out_dir env out_dir w = (Inr (), w1)"
    using ensure_out_dir_ok by blast
  have "and_then (summaries env t) (\<lambda>r. and_then (check_figs r) (\<lambda>_. save_outputs env out_dir r)) w1 =
      (case summaries env t w1 of
         (Inl e, w2) \<Rightarrow> (Inl e, w2)
       | (Inr r, w2) \<Rightarrow>
          (case fst (check_figs r w2) of
             Inl e \<Rightarrow> (Inl e, w2)
           | Inr u \<Rightarrow> save_outputs env out_dir r w2))" for t
    by (simp add: and_then_def check_figs_eq split: sum.splits prod.splits)
  then show ?thesis
    by (simp add: main_def and_then_Inr[of "ensure_out_dir env out_dir" w "()" w1, OF e]
        and_then_of_result e split: sum.splits)
qed

subsection \<open>A run in the cooperative world\<close>

lemma main_friendly:
  "main friendly ''data/train.csv'' ''results/'' fresh =
    (Inr (),
     \<lparr>stdout = [''EDA reports successfully stored in:  results/''],
      made_dirs = [''results/''],
      written = map (\<lambda>n. ''results/'' @ n) output_names,
      computed = summary_order\<rparr>)"
proof -
  have e: "ensure_out_dir friendly ''results/'' fresh = (Inr (), fresh\<lparr>made_dirs := [''results/'']\<rparr>)"
    by (simp add: ensure_out_dir_def friendly_def fresh_def)
  have b: "build_catfeatures_stats telco_processed =
      Inr (map (\<lambda>(n, s). stats_of n s) (select_dtypes_object telco_processed))"
    by (rule build_catfeatures_stats_eq)
      (simp add: telco_processed_def select_dtypes_object_def columns_def)
  have s: "summaries friendly telco_processed w =
    (Inr \<lparr>target_class_imbalance = Some (fig_id class_imbalance_spec),
          numeric_feat_dist = Some (fig_id numeric_feat_dist_spec),
          numeric_feat_corr = Some 0,
          catfeatures_stats = map (\<lambda>(n, s). stats_of n s) (select_dtypes_object telco_processed),
          cat_feat_churn_dist = Some (fig_id cat_feat_churn_dist_spec),
          cat_feat_2dhist = Some (fig_id cat_feat_2dhist_spec)\<rparr>,
     w\<lparr>computed := computed w @ summary_order\<rparr>)" for w
    by (rule summaries_eq) (simp_all add: friendly_def b)
  have r: "pd_read_csv friendly ''data/train.csv'' = Inr telco" by (simp add: friendly_def)
  show ?thesis
    unfolding main_unfold
    by (simp add: e r wrangle_telco s check_figs_eq)
      (simp add: save_outputs_def and_then_def export_def save_def savefig_def writing_def
        print_def friendly_def fresh_def output_names_def)
qed


subsection \<open>The order of the summaries\<close>

lemma main_computed:
  "computed (snd (main env input out_dir w)) =
     computed w @
       take (length (computed (snd (main env input out_dir w))) - length (computed w))
         summary_order \<and>
   (fst (main env input out_dir w) = Inr () \<longrightarrow>
      computed (snd (main env input out_dir w)) = computed w @ summary_order)"
proof -
  obtain w1 where e: "ensure_out_dir env out_dir w = (Inr (), w1)"
    and c1: "computed w1 = computed w"
    using ensure_out_dir_ok by blast
  show ?thesis
  proof (cases "pd_read_csv env input")
    case (Inl err)
    then show ?thesis by (simp add: main_unfold e c1)
  next
    case (Inr df)
    note r = this
    show ?thesis
    proof (cases "wrangle df")
      case (Inl err)
      then show ?thesis by (simp add: main_unfold e c1 r)
    next
      case (Inr train_df)
      note t = this
      obtain x w2 where s: "summaries env train_df w1 = (x, w2)" by (cases "summaries env train_df w1")
      note f = summaries_frame[OF s]
      show ?thesis
      proof (cases x)
        case (Inl err)
        then show ?thesis using f by (simp add: main_unfold e r t s c1)
      next
        case (Inr rep)
        with f have c2: "computed w2 = computed w @ summary_order" by (simp add: c1)
        obtain y w3 where o: "save_outputs env out_dir rep w2 = (y, w3)"
          by (cases "save_outputs env out_dir rep w2")
        from save_outputs_frame[OF o] have c3: "computed w3 = computed w2" by simp
        show ?thesis
          using Inr c2 c3
          by (simp add: main_unfold e r t s o summary_order_def split: sum.splits)
      qed
    qed
  qed
qed

text \<open>
  Claim C5, as the script has it: the summaries are computed in the order bar chart of
  the label counts, histograms of the three numeric features, correlation heatmap,
  summary table of the object columns, bar charts of three categorical features, 2D
  chart of twelve categorical features. Whatever a run has computed when it stops is an
  initial part of this list, and a run that succeeds has computed all six.
\<close>

theorem summaries_in_order:
  "\<exists>k. computed (snd (main env input out_dir w)) =
         computed w @
           take k [Class_imbalance, Numeric_feat_dist, Numeric_feat_corr, Catfeatures_stats,
                   Cat_feat_churn_dist, Cat_feat_2dhist] \<and>
       (fst (main env input out_dir w) = Inr () \<longrightarrow> k = 6) \<and>
       length (chart_repeat numeric_feat_dist_spec) = 3 \<and>
       length (chart_repeat cat_feat_churn_dist_spec) = 3 \<and>
       length (chart_repeat cat_feat_2dhist_spec) = 12"
proof -
  have l: "length (chart_repeat numeric_feat_dist_spec) = 3 \<and>
       length (chart_repeat cat_feat_churn_dist_spec) = 3 \<and>
       length (chart_repeat cat_feat_2dhist_spec) = 12"
    by (simp add: numeric_feat_dist_spec_def cat_feat_churn_dist_spec_def
        cat_feat_2dhist_spec_def)
  have "\<exists>k. computed (snd (main env input out_dir w)) = computed w @ take k summary_order \<and>
       (fst (main env input out_dir w) = Inr () \<longrightarrow> k = 6)"
  proof (cases "fst (main env input out_dir w) = Inr ()")
    case True
    with main_computed[of env input out_dir w]
    have "computed (snd (main env input out_dir w)) = computed w @ take 6 summary_order"
      by (simp add: summary_order_def)
    then show ?thesis by blast
  next
    case False
    with main_computed[of env input out_dir w] show ?thesis by blast
  qed
  with l show ?thesis unfolding summary_order_def by blast
qed

theorem summaries_in_order_witness:
  "fst (main friendly ''data/train.csv'' ''results/'' fresh) = Inr () \<and>
   computed (snd (main friendly ''data/train.csv'' ''results/'' fresh)) =
     [Class_imbalance, Numeric_feat_dist, Numeric_feat_corr, Catfeatures_stats,
      Cat_feat_churn_dist, Cat_feat_2dhist]"
proof -
  have ok: "fst (main friendly ''data/train.csv'' ''results/'' fresh) = Inr ()"
    by (simp add: main_friendly)
  from summaries_in_order[of friendly "''data/train.csv''" "''results/''" fresh] ok
  have "computed (snd (main friendly ''data/train.csv'' ''results/'' fresh)) =
     computed fresh @
       take 6 [Class_imbalance, Numeric_feat_dist, Numeric_feat_corr, Catfeatures_stats,
               Cat_feat_churn_dist, Cat_feat_2dhist]"
    by auto
  with ok show ?thesis by (simp add: fresh_def)
qed

text \<open>
  The claim C5 as it is stated puts the summary table last; the successful run in the
  cooperative world computes it fourth.
\<close>

theorem table_computed_last_counterexample:
  "fst (main friendly ''data/train.csv'' ''results/'' fresh) = Inr () \<and>
   computed (snd (main friendly ''data/train.csv'' ''results/'' fresh)) \<noteq> specified_order"
  by (simp add: main_friendly summary_order_def specified_order_def)

subsection \<open>A successful run and its files\<close>

lemma save_outputs_eq:
  assumes "dfi_export env (catfeatures_stats r) (out_dir @ ''table_1_cat_unique_values.png'') = None"
    and "target_class_imbalance r = Some g1"
    and "chart_save env g1 (out_dir @ ''figure_1_class_imbalance.png'') = None"
    and "numeric_feat_dist r = Some g2"
    and "chart_save env g2 (out_dir @ ''figure_2_numeric_feat_dist.png'') = None"
    and "numeric_feat_corr r = Some g3"
    and "figure_savefig env g3 (out_dir @ ''figure_3_numeric_feat_corr.png'') = None"
    and "cat_feat_churn_dist r = Some g4"
    and "chart_save env g4 (out_dir @ ''figure_4_cat_feat_churn_dist.png'') = None"
    and "cat_feat_2dhist r = Some g5"
    and "chart_save env g5 (out_dir @ ''figure_5_cat_feat_2dhist.png'') = None"
  shows "save_outputs env out_dir r w =
    (Inr (), w\<lparr>written := written w @ map (\<lambda>n. out_dir @ n) output_names,
               stdout := stdout w @ [''EDA reports successfully stored in: '' @ '' '' @ out_dir]\<rparr>)"
  using assms
  by (simp add: save_outputs_def and_then_def export_def save_def savefig_def writing_def
      print_def output_names_def)


text \<open>
  Claim C1, as the script has it: when the CSV is read, has a \<open>Churn\<close> column and gives
  object columns with distinct names, and every library call returns (the charts and the
  heatmap as objects, the six writes without an exception), \<^verbatim>\<open>main\<close> ends without error
  and has written exactly six files, whose paths are \<open>out_dir\<close> followed by the six fixed
  names, in the order of lines 139 to 144.
\<close>

theorem main_writes_six_files:
  assumes "pd_read_csv env input = Inr df"
    and "wrangle df = Inr train_df"
    and "distinct (columns (select_dtypes_object train_df))"
    and "alt_chart env class_imbalance_spec train_df = Inr (Some g1)"
    and "alt_chart env numeric_feat_dist_spec train_df = Inr (Some g2)"
    and "df_corr env train_df = Inr cor"
    and "sns_heatmap env cor = Inr (Some g3)"
    and "alt_chart env cat_feat_churn_dist_spec train_df = Inr (Some g4)"
    and "alt_chart env cat_feat_2dhist_spec train_df = Inr (Some g5)"
    and "dfi_export env (map (\<lambda>(n, s). stats_of n s) (select_dtypes_object train_df))
           (out_dir @ ''table_1_cat_unique_values.png'') = None"
    and "chart_save env g1 (out_dir @ ''figure_1_class_imbalance.png'') = None"
    and "chart_save env g2 (out_dir @ ''figure_2_numeric_feat_dist.png'') = None"
    and "figure_savefig env g3 (out_dir @ ''figure_3_numeric_feat_corr.png'') = None"
    and "chart_save env g4 (out_dir @ ''figure_4_cat_feat_churn_dist.png'') = None"
    and "chart_save env g5 (out_dir @ ''figure_5_cat_feat_2dhist.png'') = None"
  shows "fst (main env input out_dir w) = Inr () \<and>
    written (snd (main env input out_dir w)) =
      written w @
        [out_dir @ ''table_1_cat_unique_values.png'',
         out_dir @ ''figure_1_class_imbalance.png'',
         out_dir @ ''figure_2_numeric_feat_dist.png'',
         out_dir @ ''figure_3_numeric_feat_corr.png'',
         out_dir @ ''figure_4_cat_feat_churn_dist.png'',
         out_dir @ ''figure_5_cat_feat_2dhist.png''] \<and>
    length (written (snd (main env input out_dir w))) = length (written w) + 6"
proof -
  let ?stats = "map (\<lambda>(n, s). stats_of n s) (select_dtypes_object train_df)"
  let ?r = "\<lparr>target_class_imbalance = Some g1, numeric_feat_dist = Some g2,
          numeric_feat_corr = Some g3, catfeatures_stats = ?stats,
          cat_feat_churn_dist = Some g4, cat_feat_2dhist = Some g5\<rparr>"
  have b: "build_catfeatures_stats train_df = Inr ?stats"
    using assms(3) by (rule build_catfeatures_stats_eq)
  have s: "summaries env train_df w1 = (Inr ?r, w1\<lparr>computed := computed w1 @ summary_order\<rparr>)"
    for w1
    using assms(4,5,6,7) b assms(8,9) by (rule summaries_eq)
  have o: "save_outputs env out_dir ?r w2 =
    (Inr (), w2\<lparr>written := written w2 @ map (\<lambda>n. out_dir @ n) output_names,
               stdout := stdout w2 @ [''EDA reports successfully stored in: '' @ '' '' @ out_dir]\<rparr>)"
    for w2
    by (rule save_outputs_eq[where ?g1.0 = g1 and ?g2.0 = g2 and ?g3.0 = g3 and ?g4.0 = g4
          and ?g5.0 = g5]) (simp_all add: assms)
  obtain w1 where e: "ensure_out_dir env out_dir w = (Inr (), w1)"
    and w1: "written w1 = written w"
    using ensure_out_dir_ok by blast
  have "main env input out_dir w =
    (Inr (), (w1\<lparr>computed := computed w1 @ summary_order\<rparr>)
       \<lparr>written := written w @ map (\<lambda>n. out_dir @ n) output_names,
        stdout := stdout w1 @ [''EDA reports successfully stored in: '' @ '' '' @ out_dir]\<rparr>)"
    by (simp add: main_unfold assms(1,2) e s check_figs_eq o w1)
  then show ?thesis by (simp add: output_names_def)
qed


theorem main_writes_six_files_witness:
  "pd_read_csv friendly ''data/train.csv'' = Inr telco \<and>
   wrangle telco = Inr telco_processed \<and>
   fst (main friendly ''data/train.csv'' ''results/'' fresh) = Inr () \<and>
   written (snd (main friendly ''data/train.csv'' ''results/'' fresh)) =
     [''results/table_1_cat_unique_values.png'',
      ''results/figure_1_class_imbalance.png'',
      ''results/figure_2_numeric_feat_dist.png'',
      ''results/figure_3_numeric_feat_corr.png'',
      ''results/figure_4_cat_feat_churn_dist.png'',
      ''results/figure_5_cat_feat_2dhist.png'']"
proof -
  have r: "pd_read_csv friendly ''data/train.csv'' = Inr telco" by (simp add: friendly_def)
  have d: "distinct (columns (select_dtypes_object telco_processed))"
    by (simp add: telco_processed_def select_dtypes_object_def columns_def)
  have c1: "alt_chart friendly class_imbalance_spec telco_processed =
      Inr (Some (fig_id class_imbalance_spec))"
    and c2: "alt_chart friendly numeric_feat_dist_spec telco_processed =
      Inr (Some (fig_id numeric_feat_dist_spec))"
    and c3: "df_corr friendly telco_processed = Inr []"
    and c4: "sns_heatmap friendly [] = Inr (Some 0)"
    and c5: "alt_chart friendly cat_feat_churn_dist_spec telco_processed =
      Inr (Some (fig_id cat_feat_churn_dist_spec))"
    and c6: "alt_chart friendly cat_feat_2dhist_spec telco_processed =
      Inr (Some (fig_id cat_feat_2dhist_spec))"
    by (simp_all add: friendly_def)
  have s: "dfi_export friendly stats path = None" "chart_save friendly g path = None"
    "figure_savefig friendly g path = None" for stats path g
    by (simp_all add: friendly_def)
  from main_writes_six_files[OF r wrangle_telco d c1 c2 c3 c4 c5 c6 s(1) s(2) s(2) s(3) s(2) s(2),
      of "''results/''" fresh]
  show ?thesis using r wrangle_telco by (simp add: fresh_def)
qed

text \<open>
  The claim C1 as it is stated asks for seven files; the successful run in the
  cooperative world writes six.
\<close>

theorem seven_files_counterexample:
  "fst (main friendly ''data/train.csv'' ''results/'' fresh) = Inr () \<and>
   length (written (snd (main friendly ''data/train.csv'' ''results/'' fresh))) \<noteq> 7"
  by (simp add: main_friendly output_names_def)

subsection \<open>The files of any run\<close>


subsection \<open>The check of the figures\<close>

lemma main_assertion:
  assumes "pd_read_csv env input = Inr df"
    and "wrangle df = Inr train_df"
    and "alt_chart env class_imbalance_spec train_df = Inr f1"
    and "alt_chart env numeric_feat_dist_spec train_df = Inr f2"
    and "df_corr env train_df = Inr cor"
    and "sns_heatmap env cor = Inr f3"
    and "build_catfeatures_stats train_df = Inr stats"
    and "alt_chart env cat_feat_churn_dist_spec train_df = Inr f4"
    and "alt_chart env cat_feat_2dhist_spec train_df = Inr f5"
    and "f1 = None \<or> f2 = None \<or> f3 = None \<or> f4 = None \<or> f5 = None"
  shows "main env input out_dir w =
    (Inl (AssertionError ''Output figure is empty''),
     (snd (ensure_out_dir env out_dir w))
       \<lparr>computed := computed (snd (ensure_out_dir env out_dir w)) @ summary_order\<rparr>)"
proof -
  have s: "summaries env train_df w1 =
    (Inr \<lparr>target_class_imbalance = f1, numeric_feat_dist = f2, numeric_feat_corr = f3,
          catfeatures_stats = stats, cat_feat_churn_dist = f4, cat_feat_2dhist = f5\<rparr>,
     w1\<lparr>computed := computed w1 @ summary_order\<rparr>)" for w1
    using assms(3-9) by (rule summaries_eq)
  show ?thesis
    using assms(10) by (auto simp: main_unfold assms(1,2) s check_figs_eq)
qed

text \<open>
  Claim C7: when the five chart objects have been computed and one of them is \<^verbatim>\<open>None\<close>,
  \<^verbatim>\<open>main\<close> raises \<^verbatim>\<open>AssertionError\<close> with the message \<open>Output figure is empty\<close>. The check
  comes before every write: a run that has written a file found all five objects
  non-null. \<^verbatim>\<open>test_figs\<close> itself raises exactly on \<^verbatim>\<open>None\<close>.
\<close>

theorem figures_checked:
  assumes "pd_read_csv env input = Inr df"
    and "wrangle df = Inr train_df"
    and "alt_chart env class_imbalance_spec train_df = Inr f1"
    and "alt_chart env numeric_feat_dist_spec train_df = Inr f2"
    and "df_corr env train_df = Inr cor"
    and "sns_heatmap env cor = Inr f3"
    and "build_catfeatures_stats train_df = Inr stats"
    and "alt_chart env cat_feat_churn_dist_spec train_df = Inr f4"
    and "alt_chart env cat_feat_2dhist_spec train_df = Inr f5"
  shows "(f1 = None \<or> f2 = None \<or> f3 = None \<or> f4 = None \<or> f5 = None \<longrightarrow>
      fst (main env input out_dir w) = Inl (AssertionError ''Output figure is empty'')) \<and>
    (written (snd (main env input out_dir w)) \<noteq> written w \<longrightarrow>
      f1 \<noteq> None \<and> f2 \<noteq> None \<and> f3 \<noteq> None \<and> f4 \<noteq> None \<and> f5 \<noteq> None) \<and>
    (\<forall>f \<in> {f1, f2, f3, f4, f5}.
       test_figs f = (if f = None then Inl (AssertionError ''Output figure is empty'') else Inr ()))"
proof -
  obtain w1 where e: "ensure_out_dir env out_dir w = (Inr (), w1)" and w1: "written w1 = written w"
    using ensure_out_dir_ok by blast
  have a: "fst (main env input out_dir w) = Inl (AssertionError ''Output figure is empty'') \<and>
      written (snd (main env input out_dir w)) = written w"
    if "f1 = None \<or> f2 = None \<or> f3 = None \<or> f4 = None \<or> f5 = None"
    using main_assertion[OF assms that, of out_dir w] e w1 by simp
  have t: "\<forall>f \<in> {f1, f2, f3, f4, f5}.
       test_figs f = (if f = None then Inl (AssertionError ''Output figure is empty'') else Inr ())"
    by (simp add: test_figs_def)
  show ?thesis
  proof (intro conjI impI)
    assume "f1 = None \<or> f2 = None \<or> f3 = None \<or> f4 = None \<or> f5 = None"
    then show "fst (main env input out_dir w) = Inl (AssertionError ''Output figure is empty'')"
      using a by blast
  next
    assume n: "written (snd (main env input out_dir w)) \<noteq> written w"
    have "\<not> (f1 = None \<or> f2 = None \<or> f3 = None \<or> f4 = None \<or> f5 = None)"
    proof
      assume "f1 = None \<or> f2 = None \<or> f3 = None \<or> f4 = None \<or> f5 = None"
      from a[OF this] n show False by simp
    qed
    then show "f1 \<noteq> None" and "f2 \<noteq> None" and "f3 \<noteq> None" and "f4 \<noteq> None"
      and "f5 \<noteq> None"
      by simp_all
  next
    show "\<forall>f \<in> {f1, f2, f3, f4, f5}.
       test_figs f = (if f = None then Inl (AssertionError ''Output figure is empty'') else Inr ())"
      by (rule t)
  qed
qed

theorem figures_checked_witness:
  "pd_read_csv no_heatmap ''data/train.csv'' = Inr telco \<and>
   sns_heatmap no_heatmap [] = Inr None \<and>
   fst (main no_heatmap ''data/train.csv'' ''results/'' fresh) =
     Inl (AssertionError ''Output figure is empty'')"
proof -
  have r: "pd_read_csv no_heatmap ''data/train.csv'' = Inr telco"
    by (simp add: no_heatmap_def friendly_def)
  have c: "alt_chart no_heatmap class_imbalance_spec telco_processed =
      Inr (Some (fig_id class_imbalance_spec))"
    "alt_chart no_heatmap numeric_feat_dist_spec telco_processed =
      Inr (Some (fig_id numeric_feat_dist_spec))"
    "df_corr no_heatmap telco_processed = Inr []"
    "sns_heatmap no_heatmap [] = Inr None"
    "alt_chart no_heatmap cat_feat_churn_dist_spec telco_processed =
      Inr (Some (fig_id cat_feat_churn_dist_spec))"
    "alt_chart no_heatmap cat_feat_2dhist_spec telco_processed =
      Inr (Some (fig_id cat_feat_2dhist_spec))"
    by (simp_all add: no_heatmap_def friendly_def)
  have b: "build_catfeatures_stats telco_processed =
      Inr (map (\<lambda>(n, s). stats_of n s) (select_dtypes_object telco_processed))"
    by (rule build_catfeatures_stats_eq)
      (simp add: telco_processed_def select_dtypes_object_def columns_def)
  from figures_checked[OF r wrangle_telco c(1) c(2) c(3) c(4) b c(5) c(6),
      of "''results/''" fresh]
  show ?thesis using r c(4) by simp
qed

text \<open>
  Claim C10: when one of the five chart objects is \<^verbatim>\<open>None\<close>, the run ends with the
  assertion failure and has written no file.
\<close>

theorem no_partial_output:
  assumes "pd_read_csv env input = Inr df"
    and "wrangle df = Inr train_df"
    and "alt_chart env class_imbalance_spec train_df = Inr f1"
    and "alt_chart env numeric_feat_dist_spec train_df = Inr f2"
    and "df_corr env train_df = Inr cor"
    and "sns_heatmap env cor = Inr f3"
    and "build_catfeatures_stats train_df = Inr stats"
    and "alt_chart env cat_feat_churn_dist_spec train_df = Inr f4"
    and "alt_chart env cat_feat_2dhist_spec train_df = Inr f5"
    and "f1 = None \<or> f2 = None \<or> f3 = None \<or> f4 = None \<or> f5 = None"
  shows "fst (main env input out_dir w) = Inl (AssertionError ''Output figure is empty'') \<and>
    written (snd (main env input out_dir w)) = written w"
proof -
  obtain w1 where "ensure_out_dir env out_dir w = (Inr (), w1)" and "written w1 = written w"
    using ensure_out_dir_ok by blast
  then show ?thesis using main_assertion[OF assms, of out_dir w] by simp
qed

theorem no_partial_output_witness:
  "sns_heatmap no_heatmap [] = Inr None \<and>
   fst (main no_heatmap ''data/train.csv'' ''results/'' fresh) =
     Inl (AssertionError ''Output figure is empty'') \<and>
   written (snd (main no_heatmap ''data/train.csv'' ''results/'' fresh)) = []"
proof -
  have r: "pd_read_csv no_heatmap ''data/train.csv'' = Inr telco"
    by (simp add: no_heatmap_def friendly_def)
  have c: "alt_chart no_heatmap class_imbalance_spec telco_processed =
      Inr (Some (fig_id class_imbalance_spec))"
    "alt_chart no_heatmap numeric_feat_dist_spec telco_processed =
      Inr (Some (fig_id numeric_feat_dist_spec))"
    "df_corr no_heatmap telco_processed = Inr []"
    "sns_heatmap no_heatmap [] = Inr None"
    "alt_chart no_heatmap cat_feat_churn_dist_spec telco_processed =
      Inr (Some (fig_id cat_feat_churn_dist_spec))"
    "alt_chart no_heatmap cat_feat_2dhist_spec telco_processed =
      Inr (Some (fig_id cat_feat_2dhist_spec))"
    by (simp_all add: no_heatmap_def friendly_def)
  have b: "build_catfeatures_stats telco_processed =
      Inr (map (\<lambda>(n, s). stats_of n s) (select_dtypes_object telco_processed))"
    by (rule build_catfeatures_stats_eq)
      (simp add: telco_processed_def select_dtypes_object_def columns_def)
  have n: "Some (fig_id class_imbalance_spec) = None \<or> Some (fig_id numeric_feat_dist_spec) = None \<or>
      (None :: nat option) = None \<or> Some (fig_id cat_feat_churn_dist_spec) = None \<or>
      Some (fig_id cat_feat_2dhist_spec) = None"
    by simp
  from no_partial_output[OF r wrangle_telco c(1) c(2) c(3) c(4) b c(5) c(6) n,
      of "''results/''" fresh]
  show ?thesis using c(4) by (simp add: fresh_def)
qed

subsection \<open>What lines 42 and 43 do to a column\<close>

lemma value_bool_num: "value_of (CBool b) = VNum (if b then 1 else 0)"
  by simp

lemma replace_acted_on:
  "acted_on s \<Longrightarrow>
   cells (replace False ''False'' (replace True ''True'' s)) = map literal (cells s)"
proof (cases s)
  case (SBool xs)
  then show ?thesis by (induction xs) (auto simp: literal_def split: if_splits)
next
  case (SObject xs)
  assume "acted_on s"
  have "obj_cell (if value_of (obj_cell (if value_of (obj_cell x) = VNum 1 then OStr ''True'' else x)) = VNum 0
          then OStr ''False'' else (if value_of (obj_cell x) = VNum 1 then OStr ''True'' else x)) =
        literal (obj_cell x)" for x
    by (simp add: literal_def)
  then show ?thesis using SObject by (simp add: comp_def)
qed simp_all

lemma replace_not_acted_on:
  "\<not> acted_on s \<Longrightarrow> replace False ''False'' (replace True ''True'' s) = s"
  by (cases s) simp_all


lemma literal_other:
  "value_of c \<noteq> VNum 1 \<Longrightarrow> value_of c \<noteq> VNum 0 \<Longrightarrow> literal c = c"
  by (simp add: literal_def)




lemma normalized_series:
  "cells (replace False ''False'' (replace True ''True'' s)) =
     (if acted_on s then map literal (cells s) else cells s)"
  by (simp add: replace_acted_on replace_not_acted_on)

lemma normalize_churn_with_gap: "normalize_label churn_with_gap = Inr churn_with_gap_normalized"
  by (simp add: normalize_label_def churn_with_gap_def churn_with_gap_normalized_def getitem_def
      setitem_def columns_def)

lemma distinct_churn_with_gap: "distinct (columns churn_with_gap)"
  by (simp add: churn_with_gap_def columns_def)

subsection \<open>The label column after lines 42 and 43\<close>





subsection \<open>What lines 42 and 43 leave alone\<close>

text \<open>
  Claim C8, as the script has it: the label normalization keeps every column in its place
  under its name and leaves every column other than \<open>Churn\<close> as it is. A \<open>Churn\<close> column
  of dtype \<^verbatim>\<open>int64\<close> or \<^verbatim>\<open>float64\<close> is left as it is. In a \<open>Churn\<close> column of dtype
  \<^verbatim>\<open>bool\<close> or \<^verbatim>\<open>object\<close> an entry stays as it is unless it is equal, for Python, to
  \<open>True\<close> or to \<open>False\<close>: the booleans become the two strings, and so do the numbers 1
  and 0.
\<close>

theorem normalization_frame:
  assumes "distinct (columns df)" and "normalize_label df = Inr df'"
  shows "length df' = length df \<and>
    (\<forall>i < length df.
       fst (df' ! i) = fst (df ! i) \<and>
       (fst (df ! i) \<noteq> ''Churn'' \<longrightarrow> snd (df' ! i) = snd (df ! i)) \<and>
       (fst (df ! i) = ''Churn'' \<longrightarrow>
          length (cells (snd (df' ! i))) = length (cells (snd (df ! i))) \<and>
          (\<not> acted_on (snd (df ! i)) \<longrightarrow> snd (df' ! i) = snd (df ! i)) \<and>
          (acted_on (snd (df ! i)) \<longrightarrow>
             cells (snd (df' ! i)) = map literal (cells (snd (df ! i)))) \<and>
          (\<forall>j < length (cells (snd (df ! i))).
             value_of (cells (snd (df ! i)) ! j) \<noteq> value_of (CBool True) \<and>
             value_of (cells (snd (df ! i)) ! j) \<noteq> value_of (CBool False) \<longrightarrow>
             cells (snd (df' ! i)) ! j = cells (snd (df ! i)) ! j)))"
proof -
  from normalize_label_eq[OF assms(2)] obtain s where
    s: "getitem df ''Churn'' = Inr s" and
    df': "df' = map (\<lambda>(n, x). (n, if n = ''Churn''
                  then replace False ''False'' (replace True ''True'' s) else x)) df"
    by blast
  have len: "length df' = length df" by (simp add: df')
  have "fst (df' ! i) = fst (df ! i) \<and>
       (fst (df ! i) \<noteq> ''Churn'' \<longrightarrow> snd (df' ! i) = snd (df ! i)) \<and>
       (fst (df ! i) = ''Churn'' \<longrightarrow>
          length (cells (snd (df' ! i))) = length (cells (snd (df ! i))) \<and>
          (\<not> acted_on (snd (df ! i)) \<longrightarrow> snd (df' ! i) = snd (df ! i)) \<and>
          (acted_on (snd (df ! i)) \<longrightarrow>
             cells (snd (df' ! i)) = map literal (cells (snd (df ! i)))) \<and>
          (\<forall>j < length (cells (snd (df ! i))).
             value_of (cells (snd (df ! i)) ! j) \<noteq> value_of (CBool True) \<and>
             value_of (cells (snd (df ! i)) ! j) \<noteq> value_of (CBool False) \<longrightarrow>
             cells (snd (df' ! i)) ! j = cells (snd (df ! i)) ! j))" if i: "i < length df" for i
  proof (cases "fst (df ! i) = ''Churn''")
    case True
    with nth_series[OF assms(1) i] s have eq: "snd (df ! i) = s" by simp
    have n: "snd (df' ! i) = replace False ''False'' (replace True ''True'' s)"
      using i True by (simp add: df' case_prod_beta)
    have f: "fst (df' ! i) = fst (df ! i)" using i by (simp add: df' case_prod_beta)
    have c: "cells (snd (df' ! i)) = (if acted_on s then map literal (cells s) else cells s)"
      unfolding n by (rule normalized_series)
    have u: "snd (df' ! i) = s" if "\<not> acted_on s"
      unfolding n using that by (rule replace_not_acted_on)
    have k: "cells (snd (df' ! i)) ! j = cells s ! j"
      if "j < length (cells s)" and "value_of (cells s ! j) \<noteq> value_of (CBool True)"
        and "value_of (cells s ! j) \<noteq> value_of (CBool False)" for j
      using that by (simp add: c literal_def)
    from True f c u k show ?thesis unfolding eq by simp
  next
    case False
    then show ?thesis using i by (simp add: df' case_prod_beta)
  qed
  with len show ?thesis by blast
qed

theorem normalization_frame_witness:
  "distinct (columns churn_with_gap) \<and>
   normalize_label churn_with_gap = Inr churn_with_gap_normalized \<and>
   snd (churn_with_gap_normalized ! 0) = snd (churn_with_gap ! 0) \<and>
   cells (snd (churn_with_gap ! 1)) ! 1 = CNaN \<and>
   cells (snd (churn_with_gap_normalized ! 1)) ! 1 = cells (snd (churn_with_gap ! 1)) ! 1"
proof -
  have n: "fst (churn_with_gap ! 0) \<noteq> ''Churn''" "fst (churn_with_gap ! 1) = ''Churn''"
    by (simp_all add: churn_with_gap_def)
  have c: "cells (snd (churn_with_gap ! 1)) ! 1 = CNaN"
    by (simp add: churn_with_gap_def)
  have v: "value_of (cells (snd (churn_with_gap ! 1)) ! 1) \<noteq> value_of (CBool True) \<and>
      value_of (cells (snd (churn_with_gap ! 1)) ! 1) \<noteq> value_of (CBool False)"
    by (simp add: churn_with_gap_def)
  have i0: "(0::nat) < length churn_with_gap" and i1: "(1::nat) < length churn_with_gap"
    and j1: "(1::nat) < length (cells (snd (churn_with_gap ! 1)))"
    by (simp_all add: churn_with_gap_def)
  note all = normalization_frame[OF distinct_churn_with_gap normalize_churn_with_gap,
      THEN conjunct2, rule_format]
  from all[OF i0] n(1)
  have a: "snd (churn_with_gap_normalized ! 0) = snd (churn_with_gap ! 0)" by blast
  from all[OF i1] n(2)
  have "\<forall>j < length (cells (snd (churn_with_gap ! 1))).
             value_of (cells (snd (churn_with_gap ! 1)) ! j) \<noteq> value_of (CBool True) \<and>
             value_of (cells (snd (churn_with_gap ! 1)) ! j) \<noteq> value_of (CBool False) \<longrightarrow>
             cells (snd (churn_with_gap_normalized ! 1)) ! j = cells (snd (churn_with_gap ! 1)) ! j"
    by blast
  from this[rule_format, OF j1 v]
  have "cells (snd (churn_with_gap_normalized ! 1)) ! 1 = cells (snd (churn_with_gap ! 1)) ! 1" .
  with a c show ?thesis using distinct_churn_with_gap normalize_churn_with_gap by simp
qed

text \<open>
  The claim C8 as it is stated fails on a label column that holds the integer 1 beside a
  string: the 1 is not a boolean, and it becomes the string \<open>True\<close>.
\<close>

theorem integer_one_counterexample:
  "normalize_label churn_ones = Inr churn_ones_normalized \<and>
   cells (snd (churn_ones ! 1)) ! 0 = CInt 1 \<and>
   cells (snd (churn_ones_normalized ! 1)) ! 0 = CStr ''True''"
  by (simp add: normalize_label_def churn_ones_def churn_ones_normalized_def getitem_def
      setitem_def columns_def)

subsection \<open>The summary table\<close>

lemma unique_from_values:
  "set (map value_of (unique_from seen xs)) = value_of ` (set seen \<union> set xs)"
  by (induction xs arbitrary: seen) auto

lemma unique_from_distinct:
  "distinct (map value_of seen) \<Longrightarrow> distinct (map value_of (unique_from seen xs))"
  by (induction xs arbitrary: seen) auto

lemma length_unique: "length (unique xs) = card (value_of ` set xs)"
proof -
  have "distinct (map value_of (unique xs))" by (simp add: unique_def unique_from_distinct)
  then have "card (set (map value_of (unique xs))) = length (map value_of (unique xs))"
    by (rule distinct_card)
  then show ?thesis using unique_from_values[of "[]" xs] by (simp add: unique_def)
qed

lemma value_nan: "(value_of x = VNaN) = (x = CNaN)"
  by (cases x rule: value_of.cases) simp_all

lemma nunique_direct: "nunique xs = distinct_non_null xs"
proof -
  have "value_of ` set (filter (\<lambda>x. x \<noteq> CNaN) xs) = value_of ` set xs - {VNaN}"
    by (auto simp: value_nan)
  then show ?thesis by (simp add: nunique_def distinct_non_null_def length_unique)
qed

lemma isnull_sum_direct: "isnull_sum xs = missing xs"
  by (induction xs) (auto simp: isnull_sum_def missing_def)

lemma not_numeric_object: "(\<not> is_numeric s) = is_object s"
  by (cases s) auto

lemma value_literal: "value_of (literal x) = literal_value (value_of x)"
  by (simp add: literal_def literal_value_def)

lemma literal_nan: "(literal x = CNaN) = (x = CNaN)"
  by (auto simp: literal_def value_nan[symmetric])

lemma missing_literal: "missing (map literal xs) = missing xs"
  by (induction xs) (auto simp: missing_def literal_nan)

lemma literal_value_nan: "(literal_value v = VNaN) = (v = VNaN)"
  by (simp add: literal_value_def)

lemma literal_value_inj:
  assumes "unmixed xs"
  shows "inj_on literal_value (value_of ` set xs)"
proof (rule inj_onI)
  fix u v
  assume u: "u \<in> value_of ` set xs" and v: "v \<in> value_of ` set xs"
    and e: "literal_value u = literal_value v"
  from assms have m: "\<not> (VNum 1 \<in> value_of ` set xs \<and> VStr ''True'' \<in> value_of ` set xs)"
    "\<not> (VNum 0 \<in> value_of ` set xs \<and> VStr ''False'' \<in> value_of ` set xs)"
    by (simp_all add: unmixed_def)
  show "u = v"
    using e u v m by (auto simp: literal_value_def split: if_splits)
qed

lemma distinct_non_null_literal:
  assumes "unmixed xs"
  shows "distinct_non_null (map literal xs) = distinct_non_null xs"
proof -
  have "value_of ` set (map literal xs) = literal_value ` (value_of ` set xs)"
    by (auto simp: value_literal image_image)
  moreover have "literal_value ` (value_of ` set xs) - {VNaN} =
      literal_value ` (value_of ` set xs - {VNaN})"
    by (auto simp: literal_value_nan)
  moreover have "inj_on literal_value (value_of ` set xs - {VNaN})"
    using literal_value_inj[OF assms] by (rule inj_on_subset) auto
  ultimately show ?thesis by (simp add: distinct_non_null_def card_image)
qed

lemma table_of_frame:
  "map (\<lambda>r. (Feature r, Categories r, Missing_values r))
     (map (\<lambda>(n, s). stats_of n s) (select_dtypes_object df)) =
   map (\<lambda>(n, s). (n, distinct_non_null (cells s), missing (cells s)))
     (filter (\<lambda>(n, s). \<not> is_numeric s) df)"
  by (simp add: select_dtypes_object_def stats_of_def nunique_direct isnull_sum_direct
      not_numeric_object case_prod_beta)

lemma counts_kept:
  assumes d: "distinct (columns df)" and s: "getitem df ''Churn'' = Inr s"
    and u: "unmixed (cells s)" and c: "c \<in> set df"
  shows "distinct_non_null (cells (if fst c = ''Churn''
            then replace False ''False'' (replace True ''True'' s) else snd c)) =
         distinct_non_null (cells (snd c)) \<and>
         missing (cells (if fst c = ''Churn''
            then replace False ''False'' (replace True ''True'' s) else snd c)) =
         missing (cells (snd c))"
proof (cases "fst c = ''Churn''")
  case True
  from c have "(fst c, snd c) \<in> set df" by simp
  with d have "map_of df (fst c) = Some (snd c)"
    unfolding columns_def by (rule map_of_is_SomeI)
  with s True have "snd c = s" by (simp add: getitem_def)
  with True u show ?thesis
    by (simp add: normalized_series distinct_non_null_literal missing_literal)
next
  case False
  then show ?thesis by simp
qed

text \<open>
  Claim C4, as the script has it: when the object columns of the processed frame have
  distinct names, the table is built and has one row per non-numeric column of the
  processed frame, that is per column of dtype \<^verbatim>\<open>object\<close> (integer, float and boolean
  columns count as numeric and have no row), in column order, under the column's name.
  The row's count of categories is the number of distinct non-null values of the column
  and its count of missing values is the number of nulls, counted directly on the
  processed column. They are also the counts on the column at the same position of the
  input, provided the input label column does not hold a value equal to \<open>True\<close> or
  \<open>False\<close> beside the literal it is turned into.
\<close>

theorem summary_table:
  assumes "distinct (columns df)" and "wrangle df = Inr train_df"
    and "distinct (columns (select_dtypes_object train_df))"
  shows "\<exists>stats. build_catfeatures_stats train_df = Inr stats \<and>
    map (\<lambda>r. (Feature r, Categories r, Missing_values r)) stats =
      map (\<lambda>(n, s). (n, distinct_non_null (cells s), missing (cells s)))
        (filter (\<lambda>(n, s). \<not> is_numeric s) train_df) \<and>
    (label_unmixed df \<longrightarrow>
      map (\<lambda>r. (Feature r, Categories r, Missing_values r)) stats =
        map (\<lambda>((n, s), (n', s')). (n', distinct_non_null (cells s), missing (cells s)))
          (filter (\<lambda>(c, c'). \<not> is_numeric (snd c')) (zip df train_df)))"
proof -
  let ?stats = "map (\<lambda>(n, s). stats_of n s) (select_dtypes_object train_df)"
  let ?row = "\<lambda>r. (Feature r, Categories r, Missing_values r)"
  have b: "build_catfeatures_stats train_df = Inr ?stats"
    using assms(3) by (rule build_catfeatures_stats_eq)
  have p: "map ?row ?stats =
      map (\<lambda>(n, s). (n, distinct_non_null (cells s), missing (cells s)))
        (filter (\<lambda>(n, s). \<not> is_numeric s) train_df)"
    by (rule table_of_frame)
  from wrangle_eq[OF assms(2)] obtain s where s: "getitem df ''Churn'' = Inr s"
    and t: "train_df = map (\<lambda>(n, x).
      (case map_of column_names n of None \<Rightarrow> n | Some d \<Rightarrow> d,
       if n = ''Churn'' then replace False ''False'' (replace True ''True'' s) else x)) df"
    by blast
  let ?g = "\<lambda>c. (case map_of column_names (fst c) of None \<Rightarrow> fst c | Some d \<Rightarrow> d,
       if fst c = ''Churn'' then replace False ''False'' (replace True ''True'' s) else snd c)"
  have t': "train_df = map ?g df" unfolding t by (simp add: case_prod_beta)
  have q: "map ?row ?stats =
        map (\<lambda>((n, s), (n', s')). (n', distinct_non_null (cells s), missing (cells s)))
          (filter (\<lambda>(c, c'). \<not> is_numeric (snd c')) (zip df train_df))"
    if "label_unmixed df"
  proof -
    from that s have u: "unmixed (cells s)" by (simp add: label_unmixed_def)
    have z: "zip df train_df = map (\<lambda>c. (c, ?g c)) df"
      unfolding t' by (induction df) auto
    have "map (\<lambda>(n, s). (n, distinct_non_null (cells s), missing (cells s)))
        (filter (\<lambda>(n, s). \<not> is_numeric s) train_df) =
      map (\<lambda>c. (fst (?g c), distinct_non_null (cells (snd (?g c))), missing (cells (snd (?g c)))))
        (filter (\<lambda>c. \<not> is_numeric (snd (?g c))) df)"
      unfolding t' by (simp add: filter_map comp_def case_prod_beta)
    also have "\<dots> =
      map (\<lambda>c. (fst (?g c), distinct_non_null (cells (snd c)), missing (cells (snd c))))
        (filter (\<lambda>c. \<not> is_numeric (snd (?g c))) df)"
      using counts_kept[OF assms(1) s u] by (intro map_cong refl) auto
    also have "\<dots> =
        map (\<lambda>((n, s), (n', s')). (n', distinct_non_null (cells s), missing (cells s)))
          (filter (\<lambda>(c, c'). \<not> is_numeric (snd c')) (zip df train_df))"
      unfolding z by (simp add: filter_map comp_def case_prod_beta)
    finally show ?thesis using p by simp
  qed
  from b p q show ?thesis by blast
qed


theorem summary_table_witness:
  "distinct (columns telco) \<and> wrangle telco = Inr telco_processed \<and>
   distinct (columns (select_dtypes_object telco_processed)) \<and> label_unmixed telco \<and>
   (\<exists>stats. build_catfeatures_stats telco_processed = Inr stats \<and>
      map (\<lambda>r. (Feature r, Categories r, Missing_values r)) stats =
        [(''customerID'', 3, 0), (''Payment Method'', 1, 1), (''Churn'', 2, 0)])"
proof -
  have d: "distinct (columns telco)" by (simp add: telco_def columns_def)
  have dd: "distinct (columns (select_dtypes_object telco_processed))"
    by (simp add: telco_processed_def select_dtypes_object_def columns_def)
  have u: "label_unmixed telco"
    by (simp add: label_unmixed_def telco_def getitem_def unmixed_def)
  have v: "map (\<lambda>((n, s), (n', s')). (n', distinct_non_null (cells s), missing (cells s)))
          (filter (\<lambda>(c, c'). \<not> is_numeric (snd c')) (zip telco telco_processed)) =
        [(''customerID'', 3, 0), (''Payment Method'', 1, 1), (''Churn'', 2, 0)]"
    by (simp add: telco_def telco_processed_def distinct_non_null_def missing_def
        card_insert_if)
  from summary_table[OF d wrangle_telco dd] u v
  have "\<exists>stats. build_catfeatures_stats telco_processed = Inr stats \<and>
      map (\<lambda>r. (Feature r, Categories r, Missing_values r)) stats =
        [(''customerID'', 3, 0), (''Payment Method'', 1, 1), (''Churn'', 2, 0)]"
    by auto
  with d dd u wrangle_telco show ?thesis by blast
qed


text \<open>
  The claim C4 as it is stated, for every input, fails on a file with the two headers
  \<open>tenure\<close> and \<open>Tenure\<close> over text. The renaming gives two object columns the name
  \<open>Tenure\<close>, \<^verbatim>\<open>train_cat[c]\<close> is a DataFrame, and the loop raises: no table is built.
  It also fails on a label column that holds the boolean \<open>True\<close> beside the strings
  \<open>True\<close> and \<open>No\<close>: the input column has three distinct values, the row of the table
  counts two.
\<close>

theorem summary_table_counterexample:
  "distinct (columns twin_names) \<and> label_unmixed twin_names \<and>
   wrangle twin_names = Inr twin_names_processed \<and>
   build_catfeatures_stats twin_names_processed = Inl (AttributeError ''unique'') \<and>
   fst (main twins ''data/train.csv'' ''results/'' fresh) = Inl (AttributeError ''unique'') \<and>
   wrangle churn_mixed = Inr churn_mixed_processed \<and>
   build_catfeatures_stats churn_mixed_processed =
     Inr [Stats_row ''Churn'' [CStr ''True'', CStr ''No''] 2 0] \<and>
   distinct_non_null (cells (snd (churn_mixed ! 0))) = 3"
proof -
  have d: "distinct (columns twin_names)" by (simp add: twin_names_def columns_def)
  have u: "label_unmixed twin_names"
    by (simp add: label_unmixed_def twin_names_def getitem_def unmixed_def)
  have w: "wrangle twin_names = Inr twin_names_processed"
    by (simp add: wrangle_def normalize_label_def twin_names_def getitem_def setitem_def
        columns_def rename_def column_names_def twin_names_processed_def)
  have b: "build_catfeatures_stats twin_names_processed = Inl (AttributeError ''unique'')"
    by (simp add: build_catfeatures_stats_def twin_names_processed_def select_dtypes_object_def
        columns_def series_of_def)
  have r: "pd_read_csv twins ''data/train.csv'' = Inr twin_names" by (simp add: twins_def)
  have s: "fst (summaries twins twin_names_processed w1) = Inl (AttributeError ''unique'')" for w1
    by (simp add: summaries_def and_then_def computing_def of_result_def b twins_def friendly_def)
  have m: "fst (main twins ''data/train.csv'' ''results/'' fresh) = Inl (AttributeError ''unique'')"
    using s[of "snd (ensure_out_dir twins ''results/'' fresh)"]
    by (auto simp: main_unfold r w split: prod.splits sum.splits)
  have x: "wrangle churn_mixed = Inr churn_mixed_processed"
    by (simp add: wrangle_def normalize_label_def churn_mixed_def getitem_def setitem_def
        columns_def rename_def column_names_def churn_mixed_processed_def)
  have y: "build_catfeatures_stats churn_mixed_processed =
      Inr [Stats_row ''Churn'' [CStr ''True'', CStr ''No''] 2 0]"
    by (simp add: build_catfeatures_stats_def churn_mixed_processed_def select_dtypes_object_def
        columns_def series_of_def stats_of_def unique_def nunique_def isnull_sum_def)
  have z: "distinct_non_null (cells (snd (churn_mixed ! 0))) = 3"
    by (simp add: churn_mixed_def distinct_non_null_def card_insert_if)
  from d u w b m x y z show ?thesis by simp
qed

subsection \<open>Where the files go\<close>















subsection \<open>Errors\<close>

lemma summaries_exists: "summaries (env\<lparr>os_path_exists := a\<rparr>) = summaries env"
  by (rule ext) (simp add: summaries_def)

lemma save_exists: "save (env\<lparr>os_path_exists := a\<rparr>) = save env"
  by (intro ext) (simp add: save_def split: option.splits)

lemma savefig_exists: "savefig (env\<lparr>os_path_exists := a\<rparr>) = savefig env"
  by (intro ext) (simp add: savefig_def split: option.splits)

lemma export_exists: "export (env\<lparr>os_path_exists := a\<rparr>) = export env"
  by (intro ext) (simp add: export_def)

lemma save_outputs_exists: "save_outputs (env\<lparr>os_path_exists := a\<rparr>) = save_outputs env"
  by (intro ext) (simp add: save_outputs_def save_exists savefig_exists export_exists)

lemma wrangle_needs_label: "''Churn'' \<notin> set (columns df) \<Longrightarrow> wrangle df = Inl (KeyError ''Churn'')"
proof -
  assume "''Churn'' \<notin> set (columns df)"
  then have "map_of df ''Churn'' = None" by (simp add: columns_def map_of_eq_None_iff)
  then show ?thesis by (simp add: wrangle_def normalize_label_def getitem_def)
qed


lemma makedirs_swallowed:
  assumes "\<not> os_path_exists env out_dir" and "os_makedirs env out_dir = Some e0"
  shows "main env input out_dir w =
        main (env\<lparr>os_path_exists := (\<lambda>p. True)\<rparr>) input out_dir
          (w\<lparr>stdout := stdout w @
             [''Wasn't able to create output directory. Check permissions.'']\<rparr>)"
proof -
  let ?msg = "''Wasn't able to create output directory. Check permissions.''"
  have 1: "ensure_out_dir env out_dir w = (Inr (), w\<lparr>stdout := stdout w @ [?msg]\<rparr>)"
    using assms by (simp add: ensure_out_dir_def print_def)
  have 2: "ensure_out_dir (env\<lparr>os_path_exists := (\<lambda>p. True)\<rparr>) out_dir
      (w\<lparr>stdout := stdout w @ [?msg]\<rparr>) = (Inr (), w\<lparr>stdout := stdout w @ [?msg]\<rparr>)"
    by (simp add: ensure_out_dir_def)
  show ?thesis
    unfolding main_unfold 1 2
    by (simp add: summaries_exists save_outputs_exists split: sum.splits prod.splits)
qed

text \<open>
  Claim C6: when the output directory does not exist and cannot be created, \<^verbatim>\<open>main\<close>
  prints the message and goes on exactly as a run that found the directory in place. No
  other exception is caught. Following the script call by call, whichever call is the
  first to raise, the run ends with its exception: \<^verbatim>\<open>read_csv\<close>, the lookup of \<open>Churn\<close>,
  each of the four chart constructors, \<^verbatim>\<open>corr\<close>, the heatmap, the loop of the summary
  table, \<^verbatim>\<open>test_figs\<close>, and each of the six writes. The run ends without an exception
  only when none of them has raised.
\<close>

theorem errors_propagate:
  "(\<not> os_path_exists env out_dir \<and> os_makedirs env out_dir = Some e0 \<longrightarrow>
      main env input out_dir w =
        main (env\<lparr>os_path_exists := (\<lambda>p. True)\<rparr>) input out_dir
          (w\<lparr>stdout := stdout w @
             [''Wasn't able to create output directory. Check permissions.'']\<rparr>)) \<and>
   (pd_read_csv env input = Inl e \<longrightarrow> raises (main env input out_dir) w e) \<and>
   (pd_read_csv env input = Inr df \<longrightarrow>
    (''Churn'' \<notin> set (columns df) \<longrightarrow> raises (main env input out_dir) w (KeyError ''Churn'')) \<and>
    (wrangle df = Inl e \<longrightarrow> raises (main env input out_dir) w e) \<and>
    (wrangle df = Inr train_df \<longrightarrow>
     (alt_chart env class_imbalance_spec train_df = Inl e \<longrightarrow> raises (main env input out_dir) w e) \<and>
     (alt_chart env class_imbalance_spec train_df = Inr f1 \<longrightarrow>
      (alt_chart env numeric_feat_dist_spec train_df = Inl e \<longrightarrow> raises (main env input out_dir) w e) \<and>
      (alt_chart env numeric_feat_dist_spec train_df = Inr f2 \<longrightarrow>
       (df_corr env train_df = Inl e \<longrightarrow> raises (main env input out_dir) w e) \<and>
       (df_corr env train_df = Inr cor \<longrightarrow>
        (sns_heatmap env cor = Inl e \<longrightarrow> raises (main env input out_dir) w e) \<and>
        (sns_heatmap env cor = Inr f3 \<longrightarrow>
         (build_catfeatures_stats train_df = Inl e \<longrightarrow> raises (main env input out_dir) w e) \<and>
         (build_catfeatures_stats train_df = Inr stats \<longrightarrow>
          (alt_chart env cat_feat_churn_dist_spec train_df = Inl e \<longrightarrow> raises (main env input out_dir) w e) \<and>
          (alt_chart env cat_feat_churn_dist_spec train_df = Inr f4 \<longrightarrow>
           (alt_chart env cat_feat_2dhist_spec train_df = Inl e \<longrightarrow> raises (main env input out_dir) w e) \<and>
           (alt_chart env cat_feat_2dhist_spec train_df = Inr f5 \<longrightarrow>
            (f1 = None \<or> f2 = None \<or> f3 = None \<or> f4 = None \<or> f5 = None \<longrightarrow>
               raises (main env input out_dir) w (AssertionError ''Output figure is empty'')) \<and>
            (f1 = Some g1 \<and> f2 = Some g2 \<and> f3 = Some g3 \<and> f4 = Some g4 \<and> f5 = Some g5 \<longrightarrow>
             (dfi_export env stats (out_dir @ ''table_1_cat_unique_values.png'') = Some e \<longrightarrow> raises (main env input out_dir) w e) \<and>
             (dfi_export env stats (out_dir @ ''table_1_cat_unique_values.png'') = None \<longrightarrow>
              (chart_save env g1 (out_dir @ ''figure_1_class_imbalance.png'') = Some e \<longrightarrow> raises (main env input out_dir) w e) \<and>
              (chart_save env g1 (out_dir @ ''figure_1_class_imbalance.png'') = None \<longrightarrow>
               (chart_save env g2 (out_dir @ ''figure_2_numeric_feat_dist.png'') = Some e \<longrightarrow> raises (main env input out_dir) w e) \<and>
               (chart_save env g2 (out_dir @ ''figure_2_numeric_feat_dist.png'') = None \<longrightarrow>
                (figure_savefig env g3 (out_dir @ ''figure_3_numeric_feat_corr.png'') = Some e \<longrightarrow> raises (main env input out_dir) w e) \<and>
                (figure_savefig env g3 (out_dir @ ''figure_3_numeric_feat_corr.png'') = None \<longrightarrow>
                 (chart_save env g4 (out_dir @ ''figure_4_cat_feat_churn_dist.png'') = Some e \<longrightarrow> raises (main env input out_dir) w e) \<and>
                 (chart_save env g4 (out_dir @ ''figure_4_cat_feat_churn_dist.png'') = None \<longrightarrow>
                  (chart_save env g5 (out_dir @ ''figure_5_cat_feat_2dhist.png'') = Some e \<longrightarrow> raises (main env input out_dir) w e) \<and>
                  (chart_save env g5 (out_dir @ ''figure_5_cat_feat_2dhist.png'') = None \<longrightarrow>
                     fst (main env input out_dir w) = Inr ()))))))))))))))))"
  apply (intro conjI impI)
  apply (erule conjE, rule makedirs_swallowed, assumption, assumption)
  apply (simp_all add: raises_def main_unfold wrangle_needs_label summaries_def and_then_def
      computing_def of_result_def check_figs_eq save_outputs_def export_def save_def
      savefig_def writing_def print_def)
  apply auto
  done


lemma build_telco:
  "build_catfeatures_stats telco_processed =
      Inr (map (\<lambda>(n, s). stats_of n s) (select_dtypes_object telco_processed))"
  by (rule build_catfeatures_stats_eq)
    (simp add: telco_processed_def select_dtypes_object_def columns_def)

theorem errors_propagate_witness:
  "\<not> os_path_exists no_permission ''results/'' \<and>
   os_makedirs no_permission ''results/'' = Some (Raised ''PermissionError'') \<and>
   main no_permission ''data/train.csv'' ''results/'' fresh =
     (Inr (),
      \<lparr>stdout = [''Wasn't able to create output directory. Check permissions.'',
                 ''EDA reports successfully stored in:  results/''],
       made_dirs = [],
       written = map (\<lambda>n. ''results/'' @ n) output_names,
       computed = summary_order\<rparr>) \<and>
   raises (main malformed ''data/train.csv'' ''results/'') fresh (Raised ''ParserError'') \<and>
   raises (main unlabelled ''data/train.csv'' ''results/'') fresh (KeyError ''Churn'') \<and>
   chart_save last_write_fails (fig_id cat_feat_2dhist_spec)
     (''results/'' @ ''figure_5_cat_feat_2dhist.png'') = Some (Raised ''OSError'') \<and>
   raises (main last_write_fails ''data/train.csv'' ''results/'') fresh (Raised ''OSError'')"
proof -
  let ?msg = "''Wasn't able to create output directory. Check permissions.''"
  let ?stats = "map (\<lambda>(n, s). stats_of n s) (select_dtypes_object telco_processed)"
  let ?r = "\<lparr>target_class_imbalance = Some (fig_id class_imbalance_spec),
          numeric_feat_dist = Some (fig_id numeric_feat_dist_spec),
          numeric_feat_corr = Some 0,
          catfeatures_stats = ?stats,
          cat_feat_churn_dist = Some (fig_id cat_feat_churn_dist_spec),
          cat_feat_2dhist = Some (fig_id cat_feat_2dhist_spec)\<rparr>"
  \<comment> \<open>the directory cannot be created\<close>
  have a1: "\<not> os_path_exists no_permission ''results/''"
    and a2: "os_makedirs no_permission ''results/'' = Some (Raised ''PermissionError'')"
    by (simp_all add: no_permission_def friendly_def)
  let ?env = "no_permission\<lparr>os_path_exists := (\<lambda>p. True)\<rparr>"
  let ?w = "fresh\<lparr>stdout := stdout fresh @ [?msg]\<rparr>"
  from errors_propagate[where env = no_permission and out_dir = "''results/''"
      and ?e0.0 = "Raised ''PermissionError''" and input = "''data/train.csv''" and w = fresh]
    a1 a2
  have a3: "main no_permission ''data/train.csv'' ''results/'' fresh =
      main ?env ''data/train.csv'' ''results/'' ?w"
    by blast
  have s1: "summaries ?env telco_processed w1 = (Inr ?r, w1\<lparr>computed := computed w1 @ summary_order\<rparr>)"
    for w1
    by (rule summaries_eq) (simp_all add: no_permission_def friendly_def build_telco)
  have a4: "main ?env ''data/train.csv'' ''results/'' ?w =
     (Inr (),
      \<lparr>stdout = [?msg, ''EDA reports successfully stored in:  results/''],
       made_dirs = [],
       written = map (\<lambda>n. ''results/'' @ n) output_names,
       computed = summary_order\<rparr>)"
  proof -
    have e1: "ensure_out_dir ?env ''results/'' ?w = (Inr (), ?w)"
      by (simp add: ensure_out_dir_def)
    have r1: "pd_read_csv ?env ''data/train.csv'' = Inr telco"
      by (simp add: no_permission_def friendly_def)
    have o1: "save_outputs ?env ''results/'' ?r w2 =
      (Inr (), w2\<lparr>written := written w2 @ map (\<lambda>n. ''results/'' @ n) output_names,
                 stdout := stdout w2 @
                   [''EDA reports successfully stored in: '' @ '' '' @ ''results/'']\<rparr>)" for w2
      by (rule save_outputs_eq) (simp_all add: no_permission_def friendly_def)
    show ?thesis
      unfolding main_unfold e1 r1
      by (simp add: wrangle_telco s1 check_figs_eq o1 fresh_def)
  qed
  \<comment> \<open>the CSV cannot be parsed\<close>
  have b1: "pd_read_csv malformed ''data/train.csv'' = Inl (Raised ''ParserError'')"
    by (simp add: malformed_def)
  from errors_propagate[where env = malformed and input = "''data/train.csv''"
      and e = "Raised ''ParserError''" and out_dir = "''results/''" and w = fresh] b1
  have b2: "raises (main malformed ''data/train.csv'' ''results/'') fresh (Raised ''ParserError'')"
    by blast
  \<comment> \<open>the label column is missing\<close>
  have c1: "pd_read_csv unlabelled ''data/train.csv'' = Inr [(''tenure'', SInt [1, 34, 2])]"
    by (simp add: unlabelled_def)
  have c2: "''Churn'' \<notin> set (columns [(''tenure'', SInt [1, 34, 2])])"
    by (simp add: columns_def)
  from errors_propagate[where env = unlabelled and input = "''data/train.csv''"
      and df = "[(''tenure'', SInt [1, 34, 2])]" and out_dir = "''results/''" and w = fresh] c1 c2
  have c3: "raises (main unlabelled ''data/train.csv'' ''results/'') fresh (KeyError ''Churn'')"
    by blast
  \<comment> \<open>the last file cannot be written\<close>
  have d1: "pd_read_csv last_write_fails ''data/train.csv'' = Inr telco"
    and d2: "alt_chart last_write_fails class_imbalance_spec telco_processed =
      Inr (Some (fig_id class_imbalance_spec))"
    and d3: "alt_chart last_write_fails numeric_feat_dist_spec telco_processed =
      Inr (Some (fig_id numeric_feat_dist_spec))"
    and d4: "df_corr last_write_fails telco_processed = Inr []"
    and d5: "sns_heatmap last_write_fails [] = Inr (Some 0)"
    and d6: "alt_chart last_write_fails cat_feat_churn_dist_spec telco_processed =
      Inr (Some (fig_id cat_feat_churn_dist_spec))"
    and d7: "alt_chart last_write_fails cat_feat_2dhist_spec telco_processed =
      Inr (Some (fig_id cat_feat_2dhist_spec))"
    and d8: "dfi_export last_write_fails ?stats (''results/'' @ ''table_1_cat_unique_values.png'') = None"
    and d9: "chart_save last_write_fails (fig_id class_imbalance_spec)
      (''results/'' @ ''figure_1_class_imbalance.png'') = None"
    and d10: "chart_save last_write_fails (fig_id numeric_feat_dist_spec)
      (''results/'' @ ''figure_2_numeric_feat_dist.png'') = None"
    and d11: "figure_savefig last_write_fails 0 (''results/'' @ ''figure_3_numeric_feat_corr.png'') = None"
    and d12: "chart_save last_write_fails (fig_id cat_feat_churn_dist_spec)
      (''results/'' @ ''figure_4_cat_feat_churn_dist.png'') = None"
    and d13: "chart_save last_write_fails (fig_id cat_feat_2dhist_spec)
      (''results/'' @ ''figure_5_cat_feat_2dhist.png'') = Some (Raised ''OSError'')"
    by (simp_all add: last_write_fails_def friendly_def)
  from errors_propagate[where env = last_write_fails and input = "''data/train.csv''"
      and df = telco and train_df = telco_processed and out_dir = "''results/''" and w = fresh
      and ?f1.0 = "Some (fig_id class_imbalance_spec)"
      and ?f2.0 = "Some (fig_id numeric_feat_dist_spec)"
      and cor = "[]" and ?f3.0 = "Some 0" and stats = ?stats
      and ?f4.0 = "Some (fig_id cat_feat_churn_dist_spec)"
      and ?f5.0 = "Some (fig_id cat_feat_2dhist_spec)"
      and ?g1.0 = "fig_id class_imbalance_spec" and ?g2.0 = "fig_id numeric_feat_dist_spec"
      and ?g3.0 = 0 and ?g4.0 = "fig_id cat_feat_churn_dist_spec"
      and ?g5.0 = "fig_id cat_feat_2dhist_spec" and e = "Raised ''OSError''"]
    d1 wrangle_telco d2 d3 d4 d5 build_telco d6 d7 d8 d9 d10 d11 d12 d13
  have d14: "raises (main last_write_fails ''data/train.csv'' ''results/'') fresh (Raised ''OSError'')"
    by blast
  from a1 a2 a3 a4 b2 c3 d13 d14 show ?thesis by simp
qed

end
